theory Spec2Isabelle
  imports Main "HOL-Library.Word"
begin

section \<open>Values shared by the packages\<close>

text \<open>
  Go calls either return or panic, and a returning call that can fail hands back an
  \<open>error\<close> beside its value. A call is modelled by a three-way result. The error values
  are the ones the repository builds: \<open>BundleRejectionError\<close> (block-engine/types.go),
  \<open>errors.New\<close> / \<open>fmt.Errorf\<close> without \<open>%w\<close>, \<open>fmt.Errorf\<close> with \<open>%w\<close>, and errors
  handed over by the libraries the repository calls (gRPC, the RPC client, the context).
\<close>

datatype error =
    BundleRejectionError string
  | errorString string
  | wrapError string error
  | external string

fun Error :: "error \<Rightarrow> string" where
  "Error (BundleRejectionError m) = m"
| "Error (errorString s) = s"
| "Error (wrapError s e) = s"
| "Error (external s) = s"

datatype 'a result = Ok 'a | Err error | Panic string

type_synonym Duration = int

definition Second :: Duration where
  "Second = 1000000000"

definition Minute :: Duration where
  "Minute = 60 * Second"

text \<open>
  The gRPC values the repository handles: a client connection (a handle), the state a
  connection reports, and the dial options \<open>CreateGRPCConnection\<close> appends to the ones its
  caller passes in.
\<close>

type_synonym ClientConn = nat

datatype State = Idle | Connecting | Ready | TransientFailure | Shutdown

datatype TransportCredentials = insecure_NewCredentials | NewClientTLSFromCert

record ClientParameters =
  Time :: Duration
  Timeout :: Duration
  PermitWithoutStream :: bool

datatype DialOption =
    WithTransportCredentials TransportCredentials
  | WithKeepaliveParams ClientParameters
  | CallerOption string

text \<open>
  The effects a goroutine of the repository performs, in program order. \<open>Push e\<close> is a
  send \<open>ch <- e\<close> on the goroutine's error channel that has completed.
\<close>

datatype event =
    Sleep Duration
  | Log string
  | Call_SendBundle
  | Call_Recv
  | Call_GetSignatureStatuses
  | Call_GenerateAuthChallenge
  | Call_GenerateAuthTokens
  | Call_RefreshAccessToken string
  | Call_SubscribeBundleResults
  | Push error
  | Dial string "DialOption list"
  | Close ClientConn
  | ResetConnectBackoff ClientConn
  | WaitForStateChange ClientConn State

text \<open>
  A goroutine that loops: after a pass through its loop it is still running (with its
  variables), has returned, has panicked, or is blocked in a channel send that nothing
  will complete.
\<close>

datatype 'a task = Running 'a | Finished | Panicked string | Blocked

text \<open>
  A channel of errors, as \<open>make(chan error, n)\<close> builds it: its capacity (Go's \<open>cap\<close>) and
  the values it holds, oldest first. A channel of capacity 0 is unbuffered. A nil channel
  is \<open>None\<close>.
\<close>

record chan =
  capacity :: nat
  buffered :: "error list"

definition make_chan :: "nat \<Rightarrow> chan" where
  "make_chan n = \<lparr>capacity = n, buffered = []\<rparr>"

definition unbuffered :: "chan \<Rightarrow> bool" where
  "unbuffered ch = (capacity ch = 0)"

text \<open>
  The receiver of a channel takes \<open>n\<close> values from it, oldest first; it does not wait
  here when fewer are held.
\<close>

definition chan_receive :: "nat \<Rightarrow> chan \<Rightarrow> chan" where
  "chan_receive n ch = ch\<lparr>buffered := drop n (buffered ch)\<rparr>"

text \<open>
  The send \<open>ch <- e\<close>, while the receiver of the channel is ready to take \<open>n\<close> values.
  When that is more than the channel holds, the receiver is waiting and takes \<open>e\<close> itself.
  Otherwise \<open>e\<close> is buffered if that leaves room for it. Otherwise the send does not
  complete, as it never does on a nil channel: the result is \<open>None\<close>, and else the channel
  after the send.
\<close>

fun chan_send :: "chan option \<Rightarrow> nat \<Rightarrow> error \<Rightarrow> chan option" where
  "chan_send None n e = None"
| "chan_send (Some ch) n e =
     (if length (buffered ch) < n then Some (ch\<lparr>buffered := []\<rparr>)
      else if length (buffered ch) - n < capacity ch
      then Some (ch\<lparr>buffered := drop n (buffered ch) @ [e]\<rparr>)
      else None)"

text \<open>\<open>%d\<close> of \<open>fmt.Sprintf\<close> on an unsigned integer: the decimal digits.\<close>

fun decimal :: "nat \<Rightarrow> string" where
  "decimal n =
     (if n < 10 then [char_of (48 + n)]
      else decimal (n div 10) @ [char_of (48 + n mod 10)])"

declare decimal.simps [simp del]

section \<open>pkg/tx\_extract.go: signature extraction\<close>

type_synonym Signature = "8 word list"

record Transaction =
  Signatures :: "Signature list"
  Message :: "8 word list"

definition index_panic :: string where
  "index_panic = ''runtime error: index out of range [0] with length 0''"

definition ExtractSigFromTx :: "Transaction \<Rightarrow> Signature result" where
  "ExtractSigFromTx tx =
     (case Signatures tx of [] \<Rightarrow> Panic index_panic | s # _ \<Rightarrow> Ok s)"

text \<open>The \<open>for _, tx := range txs\<close> loop, with \<open>sigs\<close> as the accumulator.\<close>

fun BatchExtract_range :: "Signature list \<Rightarrow> Transaction list \<Rightarrow> Signature list result" where
  "BatchExtract_range sigs [] = Ok sigs"
| "BatchExtract_range sigs (tx # txs) =
     (case Signatures tx of
        [] \<Rightarrow> Panic index_panic
      | s # _ \<Rightarrow> BatchExtract_range (sigs @ [s]) txs)"

definition BatchExtractSigFromTx :: "Transaction list \<Rightarrow> Signature list result" where
  "BatchExtractSigFromTx txs = BatchExtract_range [] txs"

section \<open>pkg: signature status checks\<close>

text \<open>
  \<open>rpc.GetSignatureStatusesResult.Value\<close> is a slice of pointers; a nil entry is
  \<open>None\<close>. \<open>ConfirmationStatusType\<close> is a Go string type.
\<close>

record SignatureStatusesResult =
  Slot :: "64 word"
  ConfirmationStatus :: string

definition ConfirmationStatusProcessed :: string where
  "ConfirmationStatusProcessed = ''processed''"

definition ConfirmationStatusConfirmed :: string where
  "ConfirmationStatusConfirmed = ''confirmed''"

type_synonym GetSignatureStatusesResult = "SignatureStatusesResult option list"

fun CheckSignatureStatuses :: "GetSignatureStatusesResult \<Rightarrow> bool" where
  "CheckSignatureStatuses [] = True"
| "CheckSignatureStatuses (status # rest) =
     (case status of None \<Rightarrow> False | Some _ \<Rightarrow> CheckSignatureStatuses rest)"

definition nil_panic :: string where
  "nil_panic = ''runtime error: invalid memory address or nil pointer dereference''"

text \<open>
  \<open>ValidateSignatureStatuses\<close> returns an error (\<open>Err e\<close>) or nil (\<open>Ok ()\<close>), or panics
  on a nil entry, whose field it reads.
\<close>

fun ValidateSignatureStatuses :: "GetSignatureStatusesResult \<Rightarrow> unit result" where
  "ValidateSignatureStatuses [] = Ok ()"
| "ValidateSignatureStatuses (status # rest) =
     (case status of
        None \<Rightarrow> Panic nil_panic
      | Some st \<Rightarrow>
          if ConfirmationStatus st \<noteq> ConfirmationStatusProcessed \<and>
             ConfirmationStatus st \<noteq> ConfirmationStatusConfirmed
          then Err (errorString ''searcher service did not provide bundle status in time'')
          else ValidateSignatureStatuses rest)"

section \<open>block-engine/types.go: rejection errors\<close>

definition NewStateAuctionBidRejectedError :: "string \<Rightarrow> 64 word \<Rightarrow> error" where
  "NewStateAuctionBidRejectedError auction tip =
     BundleRejectionError
       (''bundle lost state auction, auction: '' @ auction @ '', tip '' @
        decimal (unat tip) @ '' lamports'')"

definition NewWinningBatchBidRejectedError :: "string \<Rightarrow> 64 word \<Rightarrow> error" where
  "NewWinningBatchBidRejectedError auction tip =
     BundleRejectionError
       (''bundle won state auction but failed global auction, auction '' @ auction @
        '', tip '' @ decimal (unat tip) @ '' lamports'')"

definition NewSimulationFailureError :: "string \<Rightarrow> string \<Rightarrow> error" where
  "NewSimulationFailureError tx message =
     BundleRejectionError
       (''bundle simulation failure on tx '' @ tx @ '', message: '' @ message)"

definition NewInternalError :: "string \<Rightarrow> error" where
  "NewInternalError message = BundleRejectionError (''internal error '' @ message)"

definition NewDroppedBundle :: "string \<Rightarrow> error" where
  "NewDroppedBundle message = BundleRejectionError (''bundle dropped '' @ message)"

section \<open>block-engine/bundle.go: bundle results\<close>

text \<open>
  The two protobuf oneofs read by \<open>handleBundleResult\<close>. A Go type switch has a case that
  matches none of the listed wrappers (the oneof is unset, or carries a variant the switch
  does not list): \<open>Reason_other\<close> and \<open>Result_other\<close>. The optional \<open>msg\<close> of a
  simulation failure is read through \<open>GetMsg\<close>, which yields the empty string when absent.
\<close>

datatype Rejected_Reason =
    Rejected_SimulationFailure string "string option"
  | Rejected_StateAuctionBidRejected string "64 word"
  | Rejected_WinningBatchBidRejected string "64 word"
  | Rejected_InternalError string
  | Rejected_DroppedBundle string
  | Reason_other

datatype BundleResult_Result =
    BundleResult_Accepted "64 word" string
  | BundleResult_Rejected Rejected_Reason
  | Result_other

record BundleResult =
  BundleId :: string
  Result :: BundleResult_Result

definition GetMsg :: "string option \<Rightarrow> string" where
  "GetMsg m = (case m of None \<Rightarrow> [] | Some s \<Rightarrow> s)"

text \<open>\<open>None\<close> is Go's nil error.\<close>

fun handleBundleResult :: "BundleResult \<Rightarrow> error option" where
  "handleBundleResult bundleResult =
     (case Result bundleResult of
        BundleResult_Accepted slot validator \<Rightarrow> None
      | BundleResult_Rejected reason \<Rightarrow>
          (case reason of
             Rejected_SimulationFailure sig msg \<Rightarrow>
               Some (NewSimulationFailureError sig (GetMsg msg))
           | Rejected_StateAuctionBidRejected auction tip \<Rightarrow>
               Some (NewStateAuctionBidRejectedError auction tip)
           | Rejected_WinningBatchBidRejected auction tip \<Rightarrow>
               Some (NewWinningBatchBidRejectedError auction tip)
           | Rejected_InternalError msg \<Rightarrow> Some (NewInternalError msg)
           | Rejected_DroppedBundle msg \<Rightarrow> Some (NewDroppedBundle msg)
           | Reason_other \<Rightarrow> None)
      | Result_other \<Rightarrow> None)"

section \<open>pkg/tx\_convert.go and bundle construction\<close>

record Meta =
  Size :: "64 word"
  Addr :: string
  Port :: "16 word"
  Flags :: "unit option"
  SenderStake :: "64 word"

record Packet =
  Data :: "8 word list"
  Meta :: "Meta option"

record Bundle =
  Packets :: "Packet list"
  Header :: "unit option"

record SendBundleResponse =
  Uuid :: string

record BundleResponse =
  BundleResponse :: SendBundleResponse
  BundleResponse_Signatures :: "Signature list"

text \<open>
  What a \<open>SearcherClient\<close> talks to while a bundle is confirmed. Each field stands for a
  collaborator outside the repository and gives the answer of one call:
  \<^item> \<open>MarshalBinary\<close>: the transaction's binary encoding;
  \<^item> \<open>SearcherService_SendBundle\<close>: the submission RPC;
  \<^item> \<open>GRPCCtx_Err i\<close>: the authentication context as the \<open>select\<close> of outer iteration
    \<open>i\<close> finds it, \<open>None\<close> while it is not done;
  \<^item> \<open>BundleStreamSubscription_Recv i\<close>: the stream read of outer iteration \<open>i\<close>;
  \<^item> \<open>RPCConn_GetSignatureStatuses i k\<close>: the \<open>k\<close>-th status query of outer iteration \<open>i\<close>;
  \<^item> \<open>rpc_duration i k\<close>: the time that query took, and \<open>sleep_overshoot i k\<close>: by how
    much the sleep after it overran (\<open>time.Sleep\<close> pauses for at least its argument),
    both in nanoseconds.
\<close>

record Env =
  MarshalBinary :: "Transaction \<Rightarrow> error + 8 word list"
  SearcherService_SendBundle :: "Bundle \<Rightarrow> error + SendBundleResponse"
  GRPCCtx_Err :: "nat \<Rightarrow> error option"
  BundleStreamSubscription_Recv :: "nat \<Rightarrow> error + BundleResult"
  RPCConn_GetSignatureStatuses ::
    "nat \<Rightarrow> nat \<Rightarrow> Signature list \<Rightarrow> error + GetSignatureStatusesResult"
  rpc_duration :: "nat \<Rightarrow> nat \<Rightarrow> nat"
  sleep_overshoot :: "nat \<Rightarrow> nat \<Rightarrow> nat"

definition ConvertTransactionToProtobufPacket :: "Env \<Rightarrow> Transaction \<Rightarrow> error + Packet" where
  "ConvertTransactionToProtobufPacket env transaction =
     (case MarshalBinary env transaction of
        Inl err \<Rightarrow> Inl err
      | Inr data \<Rightarrow>
          Inr \<lparr>Data = data,
               Meta = Some \<lparr>Size = of_nat (length data), Addr = [], Port = 0,
                            Flags = None, SenderStake = 0\<rparr>\<rparr>)"

fun ConvertBatch_range :: "Env \<Rightarrow> Packet list \<Rightarrow> Transaction list \<Rightarrow> error + Packet list" where
  "ConvertBatch_range env packets [] = Inr packets"
| "ConvertBatch_range env packets (tx # txs) =
     (case ConvertTransactionToProtobufPacket env tx of
        Inl err \<Rightarrow> Inl err
      | Inr packet \<Rightarrow> ConvertBatch_range env (packets @ [packet]) txs)"

definition ConvertBatchTransactionToProtobufPacket ::
    "Env \<Rightarrow> Transaction list \<Rightarrow> error + Packet list" where
  "ConvertBatchTransactionToProtobufPacket env transactions =
     ConvertBatch_range env [] transactions"

definition NewBundle :: "Env \<Rightarrow> Transaction list \<Rightarrow> error + Bundle" where
  "NewBundle env transactions =
     (case ConvertBatchTransactionToProtobufPacket env transactions of
        Inl err \<Rightarrow> Inl err
      | Inr packets \<Rightarrow> Inr \<lparr>Packets = packets, Header = None\<rparr>)"

definition SendBundle :: "Env \<Rightarrow> Transaction list \<Rightarrow> event list \<times> SendBundleResponse result" where
  "SendBundle env transactions =
     (case NewBundle env transactions of
        Inl err \<Rightarrow> ([], Err err)
      | Inr bundle \<Rightarrow>
          (case SearcherService_SendBundle env bundle of
             Inl err \<Rightarrow> ([Call_SendBundle], Err err)
           | Inr resp \<Rightarrow> ([Call_SendBundle], Ok resp)))"

section \<open>block-engine/bundle.go: confirmation\<close>

definition CheckBundleRetries :: nat where
  "CheckBundleRetries = 5"

definition CheckBundleRetryDelay :: Duration where
  "CheckBundleRetryDelay = 5 * Second"

definition SignaturesConfirmationTimeout :: Duration where
  "SignaturesConfirmationTimeout = 15 * Second"

definition SignaturesConfirmationRetryDelay :: Duration where
  "SignaturesConfirmationRetryDelay = 1 * Second"

text \<open>
  The \<open>for { ... }\<close> of \<open>waitForSignatureStatuses\<close> in outer iteration \<open>i\<close>: \<open>k\<close> counts the
  queries made so far and \<open>t\<close> is the time since \<open>start\<close> when the query begins. The loop
  ends because every round sleeps for at least \<open>SignaturesConfirmationRetryDelay\<close>.
\<close>

function waitForSignatureStatuses_loop ::
    "Env \<Rightarrow> nat \<Rightarrow> Transaction list \<Rightarrow> nat \<Rightarrow> Duration
     \<Rightarrow> event list \<times> GetSignatureStatusesResult result" where
  "waitForSignatureStatuses_loop env i transactions k t =
     (case BatchExtractSigFromTx transactions of
        Panic p \<Rightarrow> ([], Panic p)
      | Err e \<Rightarrow> ([], Err e)
      | Ok sigs \<Rightarrow>
          (case RPCConn_GetSignatureStatuses env i k sigs of
             Inl err \<Rightarrow> ([Call_GetSignatureStatuses], Err err)
           | Inr statuses \<Rightarrow>
               if CheckSignatureStatuses statuses
               then ([Call_GetSignatureStatuses], Ok statuses)
               else if t + int (rpc_duration env i k) > SignaturesConfirmationTimeout
               then ([Call_GetSignatureStatuses],
                     Err (errorString ''operation timed out after 15 seconds''))
               else
                 (case waitForSignatureStatuses_loop env i transactions (Suc k)
                         (t + int (rpc_duration env i k) + SignaturesConfirmationRetryDelay
                            + int (sleep_overshoot env i k)) of
                    (ev, r) \<Rightarrow>
                      (Call_GetSignatureStatuses # Sleep SignaturesConfirmationRetryDelay # ev,
                       r))))"
  by pat_completeness auto
termination
  by (relation "measure (\<lambda>(env, i, transactions, k, t).
        nat (SignaturesConfirmationTimeout + 1 - t))")
     (auto simp: SignaturesConfirmationTimeout_def SignaturesConfirmationRetryDelay_def
        Second_def)

declare waitForSignatureStatuses_loop.simps [simp del]

definition waitForSignatureStatuses ::
    "Env \<Rightarrow> nat \<Rightarrow> Transaction list \<Rightarrow> event list \<times> GetSignatureStatusesResult result" where
  "waitForSignatureStatuses env i transactions =
     waitForSignatureStatuses_loop env i transactions 0 0"

text \<open>How one pass through the body of a \<open>for\<close> loop ends.\<close>

datatype 'a step = Return 'a | Continue

text \<open>Lines 61 to 76 of bundle.go: the status poll of outer iteration \<open>i\<close>.\<close>

definition check_statuses ::
    "Env \<Rightarrow> Transaction list \<Rightarrow> SendBundleResponse \<Rightarrow> nat
     \<Rightarrow> event list \<times> BundleResponse result step" where
  "check_statuses env transactions resp i =
     (case waitForSignatureStatuses env i transactions of
        (ev, Panic p) \<Rightarrow> (ev, Return (Panic p))
      | (ev, Err err) \<Rightarrow> (ev, Continue)
      | (ev, Ok statuses) \<Rightarrow>
          (case ValidateSignatureStatuses statuses of
             Panic p \<Rightarrow> (ev, Return (Panic p))
           | Err err \<Rightarrow> (ev, Continue)
           | Ok _ \<Rightarrow>
               (case BatchExtractSigFromTx transactions of
                  Panic p \<Rightarrow> (ev, Return (Panic p))
                | Err e \<Rightarrow> (ev, Return (Err e))
                | Ok sigs \<Rightarrow>
                    (ev, Return (Ok \<lparr>BundleResponse = resp,
                                      BundleResponse_Signatures = sigs\<rparr>)))))"

text \<open>Lines 40 to 77: the body of the outer loop, for iteration \<open>i\<close>.\<close>

definition confirmation_iteration ::
    "Env \<Rightarrow> Transaction list \<Rightarrow> SendBundleResponse \<Rightarrow> nat
     \<Rightarrow> event list \<times> BundleResponse result step" where
  "confirmation_iteration env transactions resp i =
     (case GRPCCtx_Err env i of
        Some err \<Rightarrow> ([], Return (Err err))
      | None \<Rightarrow>
          (case BundleStreamSubscription_Recv env i of
             Inl err \<Rightarrow>
               (case check_statuses env transactions resp i of
                  (ev, s) \<Rightarrow>
                    (Sleep CheckBundleRetryDelay # Call_Recv #
                     Log (''error while receiving bundle result: '' @ Error err) # ev, s))
           | Inr bundleResult \<Rightarrow>
               (case handleBundleResult bundleResult of
                  Some err \<Rightarrow> ([Sleep CheckBundleRetryDelay, Call_Recv], Return (Err err))
                | None \<Rightarrow>
                    (case check_statuses env transactions resp i of
                       (ev, s) \<Rightarrow>
                         (Sleep CheckBundleRetryDelay # Call_Recv #
                          Log ''Bundle was sent.'' # ev, s)))))"

definition max_retries_error :: error where
  "max_retries_error =
     errorString (''BroadcastBundleWithConfirmation error: max retries ('' @
                  decimal CheckBundleRetries @ '') exceeded'')"

function confirmation_loop ::
    "Env \<Rightarrow> Transaction list \<Rightarrow> SendBundleResponse \<Rightarrow> nat
     \<Rightarrow> event list \<times> BundleResponse result" where
  "confirmation_loop env transactions resp i =
     (if i < CheckBundleRetries then
        (case confirmation_iteration env transactions resp i of
           (ev, Return r) \<Rightarrow> (ev, r)
         | (ev, Continue) \<Rightarrow>
             (case confirmation_loop env transactions resp (Suc i) of
                (ev', r) \<Rightarrow> (ev @ ev', r)))
      else ([], Err max_retries_error))"
  by pat_completeness auto
termination
  by (relation "measure (\<lambda>(env, transactions, resp, i). CheckBundleRetries - i)") auto

declare confirmation_loop.simps [simp del]

definition SendBundleWithConfirmation ::
    "Env \<Rightarrow> Transaction list \<Rightarrow> event list \<times> BundleResponse result" where
  "SendBundleWithConfirmation env transactions =
     (case SendBundle env transactions of
        (ev, Err err) \<Rightarrow> (ev, Err err)
      | (ev, Panic p) \<Rightarrow> (ev, Panic p)
      | (ev, Ok resp) \<Rightarrow>
          (case confirmation_loop env transactions resp 0 of
             (ev', r) \<Rightarrow> (ev @ ev', r)))"

section \<open>pkg/tx\_extract.go: the connection and its health loop\<close>

definition kacp :: ClientParameters where
  "kacp = \<lparr>Time = 10 * Second, Timeout = 5 * Second, PermitWithoutStream = True\<rparr>"

text \<open>
  \<open>net/url\<close> and gRPC are libraries. A parsed address is known by what the code reads of
  it: \<open>u.Scheme\<close>, \<open>u.Hostname()\<close> and \<open>u.Port()\<close>. \<open>url_Parse\<close> is the parser and
  \<open>grpc_DialContext\<close> the first dial.
\<close>

record URL =
  URL_Scheme :: string
  URL_Hostname :: string
  URL_Port :: string

record Net =
  url_Parse :: "string \<Rightarrow> error + URL"
  grpc_DialContext :: "string \<Rightarrow> DialOption list \<Rightarrow> error + ClientConn"

text \<open>
  The variables of the monitoring goroutine: the connection, the retry counter, and the
  address, dial options and error channel it captured (a nil channel is \<open>None\<close>).
\<close>

record Monitor =
  conn :: ClientConn
  retries :: nat
  address :: string
  dial_opts :: "DialOption list"
  chErr :: "chan option"

definition CreateGRPCConnection ::
    "Net \<Rightarrow> chan option \<Rightarrow> string \<Rightarrow> DialOption list \<Rightarrow> event list \<times> (error + Monitor)" where
  "CreateGRPCConnection net ch grpcAddr opts =
     (if grpcAddr = [] then ([], Inl (errorString ''gRPC address is required''))
      else
        (case url_Parse net grpcAddr of
           Inl err \<Rightarrow> ([], Inl (wrapError (''could not parse grpcAddr: '' @ Error err) err))
         | Inr u \<Rightarrow>
             (let insecureConnection = (URL_Scheme u = ''http'');
                  port = (if URL_Port u = []
                          then (if insecureConnection then ''80'' else ''443'')
                          else URL_Port u);
                  hostname = URL_Hostname u
              in if hostname = []
                 then ([], Inl (errorString
                   ''please provide URL format endpoint e.g. http(s)://<endpoint>:<port>''))
                 else
                   (let addr = hostname @ '':'' @ port;
                        opts' = opts @
                          [WithTransportCredentials
                             (if insecureConnection then insecure_NewCredentials
                              else NewClientTLSFromCert)] @
                          [WithKeepaliveParams kacp]
                    in case grpc_DialContext net addr opts' of
                         Inl err \<Rightarrow>
                           ([Dial addr opts'],
                            Inl (wrapError (''could not create gRPC connection: '' @ Error err)
                                   err))
                       | Inr c \<Rightarrow>
                           ([Dial addr opts'],
                            Inr \<lparr>conn = c, retries = 0, address = addr, dial_opts = opts',
                                 chErr = ch\<rparr>)))))"

text \<open>
  What one pass through the health loop meets: whether the context is done, the state
  the connection reports, what closing it returns, what a new dial returns, and how many
  values the receiver of the error channel is ready to take when the pass sends on it
  (none when nothing reads the channel).
\<close>

record Observation =
  ctx_Done :: bool
  GetState :: State
  Close_err :: "error option"
  Redial :: "error + ClientConn"
  receives :: nat

text \<open>
  The two places that dial again, lines 438 to 443 (after closing) and 446 to 450. When
  the dial fails the connection variable is nil and the error is sent on the error
  channel; once the send has completed, the \<open>WaitForStateChange\<close> that follows is called on
  the nil connection.
\<close>

definition redial :: "Monitor \<Rightarrow> Observation \<Rightarrow> State \<Rightarrow> event list \<Rightarrow> event list \<times> Monitor task" where
  "redial m ob state before =
     (case Redial ob of
        Inl err \<Rightarrow>
          (case chan_send (chErr m) (receives ob) err of
             None \<Rightarrow> (before @ [Dial (address m) (dial_opts m)], Blocked)
           | Some ch \<Rightarrow>
               (before @ [Dial (address m) (dial_opts m), Push err], Panicked nil_panic))
      | Inr c \<Rightarrow>
          (before @ [Dial (address m) (dial_opts m), WaitForStateChange c state],
           Running (m\<lparr>conn := c, retries := 0\<rparr>)))"

definition monitor_step :: "Monitor \<Rightarrow> Observation \<Rightarrow> event list \<times> Monitor task" where
  "monitor_step m ob =
     (if ctx_Done ob then
        (case Close_err ob of
           Some err \<Rightarrow>
             (case chan_send (chErr m) (receives ob) err of
                None \<Rightarrow> ([Close (conn m)], Blocked)
              | Some ch \<Rightarrow> ([Close (conn m), Push err], Finished))
         | None \<Rightarrow> ([Close (conn m)], Finished))
      else
        (let state = GetState ob in
         if state = Ready then ([Sleep (1 * Second)], Running (m\<lparr>retries := 0\<rparr>))
         else if state = TransientFailure \<or> state = Connecting \<or> state = Idle then
           (if retries m < 5 then
              ([Sleep (int (retries m) * Second), ResetConnectBackoff (conn m),
                WaitForStateChange (conn m) state],
               Running (m\<lparr>retries := retries m + 1\<rparr>))
            else redial m ob state [Close (conn m)])
         else if state = Shutdown then redial m ob state []
         else ([WaitForStateChange (conn m) state], Running m)))"

text \<open>The goroutine over the observations of its first passes.\<close>

fun monitor_run :: "Monitor \<Rightarrow> Observation list \<Rightarrow> event list \<times> Monitor task" where
  "monitor_run m [] = ([], Running m)"
| "monitor_run m (ob # obs) =
     (case monitor_step m ob of
        (ev, Running m') \<Rightarrow> (case monitor_run m' obs of (ev', t) \<Rightarrow> (ev @ ev', t))
      | (ev, Finished) \<Rightarrow> (ev, Finished)
      | (ev, Panicked p) \<Rightarrow> (ev, Panicked p)
      | (ev, Blocked) \<Rightarrow> (ev, Blocked))"

section \<open>pkg/block-engine/authenticator.go\<close>

text \<open>
  A context is the background context, the context of the caller, or a context with
  outgoing metadata on top of another. Only the caller's context can be done;
  \<open>cancelled\<close> is its error once it is.
\<close>

datatype Context =
    Background
  | CallerContext
  | NewOutgoingContext Context "(string \<times> string) list"

fun Context_Err :: "error option \<Rightarrow> Context \<Rightarrow> error option" where
  "Context_Err cancelled Background = None"
| "Context_Err cancelled CallerContext = cancelled"
| "Context_Err cancelled (NewOutgoingContext parent md) = Context_Err cancelled parent"

datatype Role = Role_RELAYER | Role_SEARCHER | Role_VALIDATOR | Role_SHREDSTREAM_SUBSCRIBER

record Timestamp =
  Seconds :: "64 word"
  Nanos :: "32 word"

record Token =
  Value :: string
  ExpiresAtUtc :: Timestamp

type_synonym PrivateKey = "8 word list"

record AuthenticationService =
  GRPCCtx :: Context
  KeyPair :: "PrivateKey option"
  BearerToken :: string
  ExpiresAt :: "64 word"
  ErrChan :: "chan option"

definition NewAuthenticationService :: "Context \<Rightarrow> PrivateKey \<Rightarrow> AuthenticationService" where
  "NewAuthenticationService ctx keyPair =
     \<lparr>GRPCCtx = ctx, KeyPair = Some keyPair, BearerToken = [], ExpiresAt = 0,
      ErrChan = Some (make_chan 1)\<rparr>"

definition updateAuthorizationMetadata ::
    "AuthenticationService \<Rightarrow> Token \<Rightarrow> AuthenticationService" where
  "updateAuthorizationMetadata as token =
     as\<lparr>GRPCCtx := NewOutgoingContext Background
                       [(''authorization'', ''Bearer '' @ Value token)],
        BearerToken := Value token,
        ExpiresAt := Seconds (ExpiresAtUtc token)\<rparr>"

text \<open>
  The signing library and the authentication service, as the handshake uses them, and
  \<open>later_reads\<close>: what the wait loop at the end of \<open>AuthenticateAndRefresh\<close> finds in
  \<open>BearerToken\<close> from its second look on, while the refresh goroutine runs beside it.
\<close>

record Handshake =
  PublicKey_Bytes :: "PrivateKey \<Rightarrow> 8 word list"
  PublicKey_String :: "PrivateKey \<Rightarrow> string"
  Sign :: "PrivateKey \<Rightarrow> 8 word list \<Rightarrow> error + string"
  base58_Decode :: "string \<Rightarrow> error + 8 word list"
  GenerateAuthChallenge :: "Role \<Rightarrow> 8 word list \<Rightarrow> error + string"
  GenerateAuthTokens :: "string \<Rightarrow> 8 word list \<Rightarrow> 8 word list \<Rightarrow> error + Token \<times> Token"
  later_reads :: "string list"

definition bytes_of :: "string \<Rightarrow> 8 word list" where
  "bytes_of s = map (\<lambda>c. of_nat (of_char c)) s"

definition generateChallengeSignature ::
    "Handshake \<Rightarrow> PrivateKey \<Rightarrow> 8 word list \<Rightarrow> error + 8 word list" where
  "generateChallengeSignature hs keyPair challenge =
     (case Sign hs keyPair challenge of
        Inl err \<Rightarrow> Inl err
      | Inr sig \<Rightarrow> base58_Decode hs sig)"

text \<open>
  One pass through the loop of the refresh goroutine, which captured the refresh token of
  the handshake. The pass meets the state of the caller's context, the answer of
  \<open>RefreshAccessToken\<close>, \<open>time.Until\<close> of the new expiry (a 64-bit duration), and
  \<open>received\<close>: how many values the receiver of \<open>ErrChan\<close> is ready to take during the pass
  (none when nothing reads the channel). The service carries the channel with what it
  holds: a pass that sends leaves the channel as the send leaves it, and a pass that does
  not send leaves it as the receiver leaves it. A send that cannot complete blocks the
  goroutine.
\<close>

record RefreshObservation =
  cancelled :: "error option"
  RefreshAccessToken :: "string \<Rightarrow> error + Token"
  Until :: "64 word"
  received :: nat

definition refresh_step ::
    "string \<Rightarrow> AuthenticationService \<Rightarrow> RefreshObservation
     \<Rightarrow> event list \<times> AuthenticationService task" where
  "refresh_step refreshToken as ob =
     (case Context_Err (cancelled ob) (GRPCCtx as) of
        Some err \<Rightarrow>
          (case chan_send (ErrChan as) (received ob) err of
             None \<Rightarrow> ([], Blocked)
           | Some ch \<Rightarrow> ([Push err], Finished))
      | None \<Rightarrow>
          (case RefreshAccessToken ob refreshToken of
             Inl err \<Rightarrow>
               (case chan_send (ErrChan as) (received ob)
                       (wrapError (''failed to refresh access token: '' @ Error err) err) of
                  None \<Rightarrow> ([Call_RefreshAccessToken refreshToken], Blocked)
                | Some ch \<Rightarrow>
                    ([Call_RefreshAccessToken refreshToken,
                      Push (wrapError (''failed to refresh access token: '' @ Error err) err),
                      Sleep (1 * Minute)],
                     Running (as\<lparr>ErrChan := Some ch\<rparr>)))
           | Inr token \<Rightarrow>
               (let sleepDuration = Until ob - 15 * 1000000000
                in (Call_RefreshAccessToken refreshToken #
                      (if 0 < sint sleepDuration then [Sleep (sint sleepDuration)] else []),
                    Running (updateAuthorizationMetadata
                               (as\<lparr>ErrChan := map_option (chan_receive (received ob))
                                                  (ErrChan as)\<rparr>)
                               token)))))"

fun refresh_run ::
    "string \<Rightarrow> AuthenticationService \<Rightarrow> RefreshObservation list
     \<Rightarrow> event list \<times> AuthenticationService task" where
  "refresh_run refreshToken as [] = ([], Running as)"
| "refresh_run refreshToken as (ob # obs) =
     (case refresh_step refreshToken as ob of
        (ev, Running as') \<Rightarrow>
          (case refresh_run refreshToken as' obs of (ev', t) \<Rightarrow> (ev @ ev', t))
      | (ev, Finished) \<Rightarrow> (ev, Finished)
      | (ev, Panicked p) \<Rightarrow> (ev, Panicked p)
      | (ev, Blocked) \<Rightarrow> (ev, Blocked))"

text \<open>
  The wait loop of lines 104 to 110 over the values it reads; \<open>False\<close> when the values
  given run out before one is non-empty.
\<close>

fun await_bearer :: "string list \<Rightarrow> event list \<times> bool" where
  "await_bearer [] = ([], False)"
| "await_bearer (v # vs) =
     (if v \<noteq> [] then ([], True)
      else (case await_bearer vs of
              (ev, done) \<Rightarrow>
                (Log ''Waiting for challenge to solve.'' # Sleep (1 * Second) # ev, done)))"

text \<open>
  \<open>AuthenticateAndRefresh\<close> fails, or returns nil with the refresh goroutine started on
  the refresh token it captured, or is still in its wait loop; on a service without a key
  pair it panics. The tokens of a response are taken to be present.
\<close>

datatype authenticated =
    AuthFailed error
  | AuthPanicked string
  | Authenticated AuthenticationService string
  | StillWaiting AuthenticationService string

definition AuthenticateAndRefresh ::
    "Handshake \<Rightarrow> AuthenticationService \<Rightarrow> Role \<Rightarrow> event list \<times> authenticated" where
  "AuthenticateAndRefresh hs as role =
     (case KeyPair as of
        None \<Rightarrow> ([], AuthPanicked nil_panic)
      | Some keyPair \<Rightarrow>
     (case GenerateAuthChallenge hs role (PublicKey_Bytes hs keyPair) of
        Inl err \<Rightarrow> ([Call_GenerateAuthChallenge], AuthFailed err)
      | Inr respChallenge \<Rightarrow>
          (let challenge = PublicKey_String hs keyPair @ ''-'' @ respChallenge
           in case generateChallengeSignature hs keyPair (bytes_of challenge) of
                Inl err \<Rightarrow> ([Call_GenerateAuthChallenge], AuthFailed err)
              | Inr sig \<Rightarrow>
                  (case GenerateAuthTokens hs challenge sig (PublicKey_Bytes hs keyPair) of
                     Inl err \<Rightarrow>
                       ([Call_GenerateAuthChallenge, Call_GenerateAuthTokens], AuthFailed err)
                   | Inr (accessToken, refreshToken) \<Rightarrow>
                       (let as' = updateAuthorizationMetadata as accessToken
                        in case await_bearer (BearerToken as' # later_reads hs) of
                             (ev, True) \<Rightarrow>
                               (Call_GenerateAuthChallenge # Call_GenerateAuthTokens # ev,
                                Authenticated as' (Value refreshToken))
                           | (ev, False) \<Rightarrow>
                               (Call_GenerateAuthChallenge # Call_GenerateAuthTokens # ev,
                                StillWaiting as' (Value refreshToken)))))))"

section \<open>block-engine/searcher.go: the client\<close>

record SearcherClient =
  GRPCConn :: ClientConn
  RPCConn :: nat
  JitoRPCConn :: nat
  BundleStreamSubscription :: nat
  AuthenticationService :: AuthenticationService
  SearcherClient_ErrChan :: chan

text \<open>
  \<open>NewSearcherClient\<close> ends with a client, an error or a panic (\<open>Some\<close>), or is still
  waiting in the handshake (\<open>None\<close>). Beside the result stand the goroutines it started:
  the health loop of the connection, and the refresh loop with its refresh token.
\<close>

record Started =
  health_loop :: "Monitor option"
  refresh_loop :: "(AuthenticationService \<times> string) option"

definition subscribe ::
    "(Context \<Rightarrow> error + nat) \<Rightarrow> Monitor \<Rightarrow> chan \<Rightarrow> nat \<Rightarrow> nat \<Rightarrow> AuthenticationService
     \<Rightarrow> event list \<times> SearcherClient result" where
  "subscribe SubscribeBundleResults m ch jitoRPCClient rpcClient authService =
     (case SubscribeBundleResults (GRPCCtx authService) of
        Inl err \<Rightarrow>
          ([Call_SubscribeBundleResults],
           Err (wrapError
                  (''could not perform bundle results subscription: '' @ Error err) err))
      | Inr subBundleRes \<Rightarrow>
          ([Call_SubscribeBundleResults],
           Ok \<lparr>GRPCConn = conn m, RPCConn = rpcClient, JitoRPCConn = jitoRPCClient,
                BundleStreamSubscription = subBundleRes, AuthenticationService = authService,
                SearcherClient_ErrChan = ch\<rparr>))"

definition NewSearcherClient ::
    "Net \<Rightarrow> Handshake \<Rightarrow> (Context \<Rightarrow> error + nat) \<Rightarrow> string \<Rightarrow> nat \<Rightarrow> nat
     \<Rightarrow> PrivateKey option \<Rightarrow> DialOption list
     \<Rightarrow> event list \<times> Started \<times> SearcherClient result option" where
  "NewSearcherClient net hs SubscribeBundleResults grpcAddr jitoRPCClient rpcClient keyPair opts =
     (let ch = make_chan 0 in
      case CreateGRPCConnection net (Some ch) grpcAddr opts of
        (ev, Inl err) \<Rightarrow> (ev, \<lparr>health_loop = None, refresh_loop = None\<rparr>, Some (Err err))
      | (ev, Inr m) \<Rightarrow>
          (case keyPair of
             Some kp \<Rightarrow>
               (case AuthenticateAndRefresh hs (NewAuthenticationService Background kp)
                       Role_SEARCHER of
                  (ev', AuthFailed err) \<Rightarrow>
                    (ev @ ev', \<lparr>health_loop = Some m, refresh_loop = None\<rparr>, Some (Err err))
                | (ev', AuthPanicked p) \<Rightarrow>
                    (ev @ ev', \<lparr>health_loop = Some m, refresh_loop = None\<rparr>, Some (Panic p))
                | (ev', StillWaiting as rt) \<Rightarrow>
                    (ev @ ev', \<lparr>health_loop = Some m, refresh_loop = Some (as, rt)\<rparr>, None)
                | (ev', Authenticated as rt) \<Rightarrow>
                    (case subscribe SubscribeBundleResults m ch jitoRPCClient rpcClient as of
                       (ev'', r) \<Rightarrow>
                         (ev @ ev' @ ev'',
                          \<lparr>health_loop = Some m, refresh_loop = Some (as, rt)\<rparr>, Some r)))
           | None \<Rightarrow>
               (case subscribe SubscribeBundleResults m ch jitoRPCClient rpcClient
                       \<lparr>GRPCCtx = CallerContext, KeyPair = None, BearerToken = [],
                        ExpiresAt = 0, ErrChan = None\<rparr> of
                  (ev'', r) \<Rightarrow>
                    (ev @ ev'', \<lparr>health_loop = Some m, refresh_loop = None\<rparr>, Some r))))"

section \<open>Example inputs\<close>

text \<open>
  Two signed transactions and an unsigned one, and four environments: one whose status
  queries never find the signatures (each query takes 16 seconds, so the poll times out
  after one query), one that also delivers a bundle result on the second outer iteration,
  one whose statuses are confirmed on the third outer iteration, and one like it whose
  stream delivers, on that third iteration, a rejection with none of the five listed
  reasons.
\<close>

definition tx_a :: Transaction where
  "tx_a = \<lparr>Signatures = [[1, 2], [3]], Message = [9]\<rparr>"

definition tx_b :: Transaction where
  "tx_b = \<lparr>Signatures = [[7]], Message = []\<rparr>"

definition tx_unsigned :: Transaction where
  "tx_unsigned = \<lparr>Signatures = [], Message = [5]\<rparr>"

definition absent_env :: Env where
  "absent_env =
     \<lparr>MarshalBinary = (\<lambda>tx. Inr (Message tx)),
      SearcherService_SendBundle = (\<lambda>b. Inr \<lparr>Uuid = ''uuid''\<rparr>),
      GRPCCtx_Err = (\<lambda>i. None),
      BundleStreamSubscription_Recv = (\<lambda>i. Inl (external ''EOF'')),
      RPCConn_GetSignatureStatuses = (\<lambda>i k sigs. Inr (map (\<lambda>s. None) sigs)),
      rpc_duration = (\<lambda>i k. 16000000000),
      sleep_overshoot = (\<lambda>i k. 0)\<rparr>"

definition stream_env :: "BundleResult \<Rightarrow> Env" where
  "stream_env br =
     absent_env\<lparr>BundleStreamSubscription_Recv :=
       (\<lambda>i. if i = 1 then Inr br else Inl (external ''EOF''))\<rparr>"

definition confirmed_env :: Env where
  "confirmed_env =
     absent_env\<lparr>RPCConn_GetSignatureStatuses :=
       (\<lambda>i k sigs. if i = 2
          then Inr (map (\<lambda>s. Some \<lparr>Slot = 1, ConfirmationStatus = ''confirmed''\<rparr>) sigs)
          else Inr (map (\<lambda>s. None) sigs))\<rparr>"

definition rejected_result :: "Rejected_Reason \<Rightarrow> BundleResult" where
  "rejected_result reason = \<lparr>BundleId = ''bundle-1'', Result = BundleResult_Rejected reason\<rparr>"



definition dropped_env :: Env where
  "dropped_env =
     confirmed_env\<lparr>BundleStreamSubscription_Recv :=
       (\<lambda>i. if i = 2 then Inr (rejected_result Reason_other) else Inl (external ''EOF''))\<rparr>"

text \<open>
  A parser that knows three addresses and rejects the rest, a failing and a ready
  observation of a connection, and the variables of a health loop after \<open>n\<close> retries.
\<close>

definition example_net :: Net where
  "example_net =
     \<lparr>url_Parse = (\<lambda>s.
        if s = ''https://ny.example.org'' then
          Inr \<lparr>URL_Scheme = ''https'', URL_Hostname = ''ny.example.org'', URL_Port = []\<rparr>
        else if s = ''http://localhost'' then
          Inr \<lparr>URL_Scheme = ''http'', URL_Hostname = ''localhost'', URL_Port = []\<rparr>
        else if s = ''ny.example.org'' then
          Inr \<lparr>URL_Scheme = [], URL_Hostname = [], URL_Port = []\<rparr>
        else Inl (external ''missing protocol scheme'')),
      grpc_DialContext = (\<lambda>a os. Inr 1)\<rparr>"

definition failing :: Observation where
  "failing =
     \<lparr>ctx_Done = False, GetState = TransientFailure, Close_err = None, Redial = Inr 2,
      receives = 0\<rparr>"

definition ready :: Observation where
  "ready =
     \<lparr>ctx_Done = False, GetState = Ready, Close_err = None, Redial = Inr 2, receives = 0\<rparr>"

definition tls_opts :: "DialOption list" where
  "tls_opts = [WithTransportCredentials NewClientTLSFromCert, WithKeepaliveParams kacp]"

definition example_monitor :: "nat \<Rightarrow> Monitor" where
  "example_monitor n =
     \<lparr>conn = 1, retries = n, address = ''ny.example.org:443'', dial_opts = tls_opts,
      chErr = None\<rparr>"

text \<open>
  A handshake that succeeds at once, the service it leaves behind, a refresh that fails
  while nothing reads the error channel and one whose error is read, the wrapped error of
  such a refresh, a pass that finds the caller's context cancelled, the service with that
  error held in its channel, and the client built from them.
\<close>

definition example_access :: Token where
  "example_access = \<lparr>Value = ''access'', ExpiresAtUtc = \<lparr>Seconds = 1000, Nanos = 0\<rparr>\<rparr>"

definition example_refresh :: Token where
  "example_refresh = \<lparr>Value = ''refresh'', ExpiresAtUtc = \<lparr>Seconds = 9000, Nanos = 0\<rparr>\<rparr>"

definition example_handshake :: Handshake where
  "example_handshake =
     \<lparr>PublicKey_Bytes = (\<lambda>k. k),
      PublicKey_String = (\<lambda>k. ''pubkey''),
      Sign = (\<lambda>k m. Inr ''signature''),
      base58_Decode = (\<lambda>s. Inr [1, 2, 3]),
      GenerateAuthChallenge = (\<lambda>r pk. Inr ''challenge''),
      GenerateAuthTokens = (\<lambda>c s pk. Inr (example_access, example_refresh)),
      later_reads = []\<rparr>"

definition example_auth :: AuthenticationService where
  "example_auth =
     \<lparr>GRPCCtx = NewOutgoingContext Background [(''authorization'', ''Bearer access'')],
      KeyPair = Some [1, 2], BearerToken = ''access'', ExpiresAt = 1000,
      ErrChan = Some (make_chan 1)\<rparr>"

definition refresh_fails :: RefreshObservation where
  "refresh_fails =
     \<lparr>cancelled = None, RefreshAccessToken = (\<lambda>t. Inl (external ''unavailable'')), Until = 0,
      received = 0\<rparr>"

definition refresh_fails_read :: RefreshObservation where
  "refresh_fails_read = refresh_fails\<lparr>received := 1\<rparr>"

definition refresh_error :: error where
  "refresh_error =
     wrapError ''failed to refresh access token: unavailable'' (external ''unavailable'')"

definition caller_cancelled :: RefreshObservation where
  "caller_cancelled =
     \<lparr>cancelled = Some (external ''context canceled''),
      RefreshAccessToken = (\<lambda>t. Inl (external ''unavailable'')), Until = 0, received = 0\<rparr>"

definition held_auth :: AuthenticationService where
  "held_auth = example_auth\<lparr>ErrChan := Some \<lparr>capacity = 1, buffered = [refresh_error]\<rparr>\<rparr>"

definition example_client :: SearcherClient where
  "example_client =
     \<lparr>GRPCConn = 1, RPCConn = 4, JitoRPCConn = 3, BundleStreamSubscription = 7,
      AuthenticationService = example_auth, SearcherClient_ErrChan = make_chan 0\<rparr>"

definition example_subscribe :: "Context \<Rightarrow> error + nat" where
  "example_subscribe ctx = Inr 7"

section \<open>Signature extraction and the confirmation loop: lemmas\<close>

lemma BatchExtract_range_Ok:
  "BatchExtract_range sigs txs = Ok out \<Longrightarrow>
     out = sigs @ map (\<lambda>tx. hd (Signatures tx)) txs \<and> (\<forall>tx \<in> set txs. Signatures tx \<noteq> [])"
  by (induction sigs txs rule: BatchExtract_range.induct) (auto split: list.splits)

lemma BatchExtract_range_signed:
  "\<forall>tx \<in> set txs. Signatures tx \<noteq> [] \<Longrightarrow>
     BatchExtract_range sigs txs = Ok (sigs @ map (\<lambda>tx. hd (Signatures tx)) txs)"
  by (induction sigs txs rule: BatchExtract_range.induct) (auto split: list.splits)

lemma BatchExtract_range_unsigned:
  "\<exists>tx \<in> set txs. Signatures tx = [] \<Longrightarrow> BatchExtract_range sigs txs = Panic index_panic"
  by (induction sigs txs rule: BatchExtract_range.induct) (auto split: list.splits)

lemma wait_unsigned:
  "BatchExtractSigFromTx txs = Panic p \<Longrightarrow> waitForSignatureStatuses env i txs = ([], Panic p)"
  by (simp add: waitForSignatureStatuses_def waitForSignatureStatuses_loop.simps)

lemma check_statuses_unsigned:
  "BatchExtractSigFromTx txs = Panic p \<Longrightarrow> check_statuses env txs resp i = ([], Return (Panic p))"
  by (simp add: check_statuses_def wait_unsigned)

lemma check_statuses_Ok:
  "check_statuses env txs resp i = (ev, Return (Ok r)) \<Longrightarrow>
     BatchExtractSigFromTx txs = Ok (BundleResponse_Signatures r)"
  by (auto simp: check_statuses_def split: prod.splits result.splits)

lemma iteration_Ok:
  "confirmation_iteration env txs resp i = (ev, Return (Ok r)) \<Longrightarrow>
     BatchExtractSigFromTx txs = Ok (BundleResponse_Signatures r)"
  by (auto simp: confirmation_iteration_def split: option.splits sum.splits prod.splits
        dest: check_statuses_Ok)

lemma loop_Ok:
  "confirmation_loop env txs resp i = (ev, Ok r) \<Longrightarrow>
     BatchExtractSigFromTx txs = Ok (BundleResponse_Signatures r)"
proof (induction env txs resp i arbitrary: ev rule: confirmation_loop.induct)
  case (1 env txs resp i)
  show ?case
  proof (cases "i < CheckBundleRetries")
    case False
    with "1.prems" show ?thesis by (simp add: confirmation_loop.simps)
  next
    case True
    obtain ev1 s where it: "confirmation_iteration env txs resp i = (ev1, s)"
      by (cases "confirmation_iteration env txs resp i")
    show ?thesis
    proof (cases s)
      case (Return r')
      with True it "1.prems" have "confirmation_iteration env txs resp i = (ev, Return (Ok r))"
        by (simp add: confirmation_loop.simps)
      then show ?thesis by (rule iteration_Ok)
    next
      case Continue
      obtain ev2 r2 where rest: "confirmation_loop env txs resp (Suc i) = (ev2, r2)"
        by (cases "confirmation_loop env txs resp (Suc i)")
      with True it Continue "1.prems" have "r2 = Ok r"
        by (simp add: confirmation_loop.simps)
      with rest "1.IH" [OF True it [symmetric] Continue] show ?thesis by simp
    qed
  qed
qed

lemma loop_unroll:
  "i \<le> k \<Longrightarrow> k \<le> CheckBundleRetries \<Longrightarrow>
   \<forall>j. i \<le> j \<and> j < k \<longrightarrow> snd (confirmation_iteration env txs resp j) = Continue \<Longrightarrow>
   confirmation_loop env txs resp i =
     (concat (map (\<lambda>j. fst (confirmation_iteration env txs resp j)) [i..<k]) @
        fst (confirmation_loop env txs resp k),
      snd (confirmation_loop env txs resp k))"
proof (induction "k - i" arbitrary: i)
  case 0
  then show ?case by simp
next
  case (Suc n)
  then have lt: "i < k" and ik: "i < CheckBundleRetries" by auto
  from Suc.prems lt have c: "snd (confirmation_iteration env txs resp i) = Continue" by simp
  have n: "n = k - Suc i" using Suc.hyps by simp
  have rest: "confirmation_loop env txs resp (Suc i) =
     (concat (map (\<lambda>j. fst (confirmation_iteration env txs resp j)) [Suc i..<k]) @
        fst (confirmation_loop env txs resp k),
      snd (confirmation_loop env txs resp k))"
    using Suc.hyps(1) [OF n] lt Suc.prems by simp
  have "confirmation_loop env txs resp i =
      (fst (confirmation_iteration env txs resp i) @ fst (confirmation_loop env txs resp (Suc i)),
       snd (confirmation_loop env txs resp (Suc i)))"
    using ik c by (subst confirmation_loop.simps) (auto split: prod.splits step.splits)
  with rest lt show ?case by (simp add: upt_conv_Cons)
qed

lemma loop_end:
  "confirmation_loop env txs resp CheckBundleRetries = ([], Err max_retries_error)"
  by (subst confirmation_loop.simps) simp


lemma loop_return:
  "k < CheckBundleRetries \<Longrightarrow> confirmation_iteration env txs resp k = (ev, Return r) \<Longrightarrow>
     confirmation_loop env txs resp k = (ev, r)"
  by (subst confirmation_loop.simps) simp

lemma run_return:
  assumes send: "SendBundle env txs = (ev0, Ok resp)"
    and k: "k < CheckBundleRetries"
    and before: "\<forall>j<k. snd (confirmation_iteration env txs resp j) = Continue"
    and it: "confirmation_iteration env txs resp k = (ev, Return r)"
  shows "SendBundleWithConfirmation env txs =
           (ev0 @ concat (map (\<lambda>j. fst (confirmation_iteration env txs resp j)) [0..<k]) @ ev, r)"
proof -
  have "confirmation_loop env txs resp k = (ev, r)"
    using k it by (rule loop_return)
  moreover have "confirmation_loop env txs resp 0 =
     (concat (map (\<lambda>j. fst (confirmation_iteration env txs resp j)) [0..<k]) @
        fst (confirmation_loop env txs resp k),
      snd (confirmation_loop env txs resp k))"
    using k before by (intro loop_unroll) auto
  ultimately show ?thesis using send by (simp add: SendBundleWithConfirmation_def)
qed

lemmas env_simps = absent_env_def stream_env_def confirmed_env_def tx_a_def tx_b_def
  tx_unsigned_def

lemma send_absent: "SendBundle absent_env [tx_a, tx_b] =
  ([Call_SendBundle], Ok \<lparr>Uuid = ''uuid''\<rparr>)"
  by (simp add: SendBundle_def NewBundle_def ConvertBatchTransactionToProtobufPacket_def
      ConvertTransactionToProtobufPacket_def env_simps)

lemma batch_a_b: "BatchExtractSigFromTx [tx_a, tx_b] = Ok [[1, 2], [7]]"
  by (simp add: BatchExtractSigFromTx_def tx_a_def tx_b_def)

lemma wait_absent: "waitForSignatureStatuses absent_env i [tx_a, tx_b] =
   ([Call_GetSignatureStatuses], Err (errorString ''operation timed out after 15 seconds''))"
  unfolding waitForSignatureStatuses_def
  by (subst waitForSignatureStatuses_loop.simps)
     (simp add: batch_a_b absent_env_def SignaturesConfirmationTimeout_def Second_def)

lemma send_confirmed: "SendBundle confirmed_env [tx_a, tx_b] =
  ([Call_SendBundle], Ok \<lparr>Uuid = ''uuid''\<rparr>)"
  by (simp add: SendBundle_def NewBundle_def ConvertBatchTransactionToProtobufPacket_def
      ConvertTransactionToProtobufPacket_def env_simps)

lemma wait_confirmed_early:
  "i \<noteq> 2 \<Longrightarrow> waitForSignatureStatuses confirmed_env i [tx_a, tx_b] =
   ([Call_GetSignatureStatuses], Err (errorString ''operation timed out after 15 seconds''))"
  unfolding waitForSignatureStatuses_def
  by (subst waitForSignatureStatuses_loop.simps)
     (simp add: batch_a_b confirmed_env_def absent_env_def SignaturesConfirmationTimeout_def Second_def)

lemma wait_confirmed_third:
  "waitForSignatureStatuses confirmed_env 2 [tx_a, tx_b] =
   ([Call_GetSignatureStatuses],
    Ok [Some \<lparr>Slot = 1, ConfirmationStatus = ''confirmed''\<rparr>,
        Some \<lparr>Slot = 1, ConfirmationStatus = ''confirmed''\<rparr>])"
  unfolding waitForSignatureStatuses_def
  by (subst waitForSignatureStatuses_loop.simps)
     (simp add: batch_a_b confirmed_env_def absent_env_def)

lemma confirmed_env_quiet:
  "GRPCCtx_Err confirmed_env i = None"
  "BundleStreamSubscription_Recv confirmed_env i = Inl (external ''EOF'')"
  by (simp_all add: confirmed_env_def absent_env_def)

lemma it_confirmed_early:
  "i \<noteq> 2 \<Longrightarrow> snd (confirmation_iteration confirmed_env [tx_a, tx_b] resp i) = Continue"
  by (simp add: confirmation_iteration_def check_statuses_def wait_confirmed_early
        confirmed_env_quiet)

lemma it_confirmed_third:
  "confirmation_iteration confirmed_env [tx_a, tx_b] resp 2 =
     ([Sleep CheckBundleRetryDelay, Call_Recv,
       Log ''error while receiving bundle result: EOF'', Call_GetSignatureStatuses],
      Return (Ok \<lparr>BundleResponse = resp, BundleResponse_Signatures = [[1, 2], [7]]\<rparr>))"
  by (simp add: confirmation_iteration_def check_statuses_def wait_confirmed_third batch_a_b
        ConfirmationStatusProcessed_def ConfirmationStatusConfirmed_def confirmed_env_quiet)









section \<open>Signature extraction\<close>

text \<open>
  C10. A transaction with at least one signature yields its first signature, from
  \<open>ExtractSigFromTx\<close> and, for a batch of such transactions, from
  \<open>BatchExtractSigFromTx\<close>. With an empty \<open>Signatures\<close> list the index access
  \<open>tx.Signatures[0]\<close> is out of range and the call panics; a batch holding such a
  transaction makes the status poll of \<open>SendBundleWithConfirmation\<close> panic before its first
  query, and the call never returns a confirmed result.
\<close>

theorem extraction_needs_signature:
  "(Signatures tx \<noteq> [] \<longrightarrow> ExtractSigFromTx tx = Ok (hd (Signatures tx))) \<and>
   (Signatures tx' = [] \<longrightarrow> ExtractSigFromTx tx' = Panic index_panic) \<and>
   ((\<forall>t \<in> set txs. Signatures t \<noteq> []) \<longrightarrow>
      BatchExtractSigFromTx txs = Ok (map (\<lambda>t. hd (Signatures t)) txs)) \<and>
   ((\<exists>t \<in> set txs'. Signatures t = []) \<longrightarrow>
      BatchExtractSigFromTx txs' = Panic index_panic \<and>
      check_statuses env txs' resp i = ([], Return (Panic index_panic)) \<and>
      (\<forall>r. snd (SendBundleWithConfirmation env txs') \<noteq> Ok r))"
proof (intro conjI impI allI)
  assume "Signatures tx \<noteq> []"
  then show "ExtractSigFromTx tx = Ok (hd (Signatures tx))"
    by (cases "Signatures tx") (simp_all add: ExtractSigFromTx_def)
next
  assume "Signatures tx' = []"
  then show "ExtractSigFromTx tx' = Panic index_panic"
    by (simp add: ExtractSigFromTx_def)
next
  assume "\<forall>t \<in> set txs. Signatures t \<noteq> []"
  then show "BatchExtractSigFromTx txs = Ok (map (\<lambda>t. hd (Signatures t)) txs)"
    unfolding BatchExtractSigFromTx_def by (simp add: BatchExtract_range_signed)
next
  assume u: "\<exists>t \<in> set txs'. Signatures t = []"
  then show p: "BatchExtractSigFromTx txs' = Panic index_panic"
    unfolding BatchExtractSigFromTx_def by (rule BatchExtract_range_unsigned)
  then show "check_statuses env txs' resp i = ([], Return (Panic index_panic))"
    by (rule check_statuses_unsigned)
  fix r
  show "snd (SendBundleWithConfirmation env txs') \<noteq> Ok r"
  proof
    assume "snd (SendBundleWithConfirmation env txs') = Ok r"
    then obtain ev1 resp' where "confirmation_loop env txs' resp' 0 = (ev1, Ok r)"
      by (auto simp: SendBundleWithConfirmation_def split: prod.splits result.splits)
    then have "BatchExtractSigFromTx txs' = Ok (BundleResponse_Signatures r)"
      by (rule loop_Ok)
    with p show False by simp
  qed
qed

text \<open>
  C10, at a signed transaction, an unsigned one, and batches of both kinds.
\<close>

theorem extraction_needs_signature_witness:
  "Signatures tx_a \<noteq> [] \<and> ExtractSigFromTx tx_a = Ok [1, 2] \<and>
   Signatures tx_unsigned = [] \<and> ExtractSigFromTx tx_unsigned = Panic index_panic \<and>
   BatchExtractSigFromTx [tx_a, tx_b] = Ok [[1, 2], [7]] \<and>
   BatchExtractSigFromTx [tx_a, tx_unsigned] = Panic index_panic \<and>
   check_statuses absent_env [tx_a, tx_unsigned] \<lparr>Uuid = ''uuid''\<rparr> 0 =
     ([], Return (Panic index_panic)) \<and>
   snd (SendBundleWithConfirmation absent_env [tx_a, tx_unsigned]) \<noteq>
     Ok \<lparr>BundleResponse = \<lparr>Uuid = ''uuid''\<rparr>, BundleResponse_Signatures = [[1, 2]]\<rparr>"
  using extraction_needs_signature [of tx_a tx_unsigned "[tx_a, tx_b]" "[tx_a, tx_unsigned]"
      absent_env "\<lparr>Uuid = ''uuid''\<rparr>" 0]
  by (simp add: tx_a_def tx_b_def tx_unsigned_def)

section \<open>Confirmation\<close>

text \<open>
  C2. When \<open>SendBundleWithConfirmation\<close> returns a \<open>BundleResponse\<close>, its signatures are the
  first signature of each submitted transaction, in the order of the batch and as many as
  the batch has transactions; every transaction of such a batch is signed. This holds for
  every batch, in particular for the non-empty ones.
\<close>

theorem signatures_of_success:
  assumes "snd (SendBundleWithConfirmation env txs) = Ok r"
  shows "BundleResponse_Signatures r = map (\<lambda>tx. hd (Signatures tx)) txs \<and>
         length (BundleResponse_Signatures r) = length txs \<and>
         (\<forall>tx \<in> set txs. Signatures tx \<noteq> [])"
proof -
  from assms obtain ev0 resp ev1 where "confirmation_loop env txs resp 0 = (ev1, Ok r)"
    by (auto simp: SendBundleWithConfirmation_def split: prod.splits result.splits)
  then have "BatchExtractSigFromTx txs = Ok (BundleResponse_Signatures r)"
    by (rule loop_Ok)
  then show ?thesis
    unfolding BatchExtractSigFromTx_def by (auto dest: BatchExtract_range_Ok)
qed

text \<open>
  C2, with no bundle result on the stream and the statuses confirmed on the third outer
  iteration.
\<close>

theorem signatures_of_success_witness:
  "snd (SendBundleWithConfirmation confirmed_env [tx_a, tx_b]) =
      Ok \<lparr>BundleResponse = \<lparr>Uuid = ''uuid''\<rparr>, BundleResponse_Signatures = [[1, 2], [7]]\<rparr> \<and>
   [[1, 2], [7]] = map (\<lambda>tx. hd (Signatures tx)) [tx_a, tx_b] \<and>
   length [[1, 2], [7 :: 8 word]] = length [tx_a, tx_b]"
proof -
  have before: "\<forall>j<2. snd (confirmation_iteration confirmed_env [tx_a, tx_b]
                   \<lparr>Uuid = ''uuid''\<rparr> j) = Continue"
    by (simp add: it_confirmed_early)
  have h: "snd (SendBundleWithConfirmation confirmed_env [tx_a, tx_b]) =
      Ok \<lparr>BundleResponse = \<lparr>Uuid = ''uuid''\<rparr>, BundleResponse_Signatures = [[1, 2], [7]]\<rparr>"
    using run_return [OF send_confirmed _ before it_confirmed_third]
    by (simp add: CheckBundleRetries_def)
  from signatures_of_success [OF h] h show ?thesis by simp
qed



text \<open>
  C3. When the bundle was submitted and in each of the \<open>CheckBundleRetries\<close> iterations the
  context is live, the stream yields no rejection, and the status poll fails or returns
  statuses that are not all processed or confirmed, the call returns the error
  "max retries (5) exceeded" and no result.
\<close>

theorem retries_exhausted:
  assumes send: "SendBundle env txs = (ev0, Ok resp)"
    and every: "\<forall>i<CheckBundleRetries.
        GRPCCtx_Err env i = None \<and>
        (case BundleStreamSubscription_Recv env i of
           Inl err \<Rightarrow> True
         | Inr bundleResult \<Rightarrow> handleBundleResult bundleResult = None) \<and>
        (case snd (waitForSignatureStatuses env i txs) of
           Err err \<Rightarrow> True
         | Ok statuses \<Rightarrow> (\<exists>err. ValidateSignatureStatuses statuses = Err err)
         | Panic p \<Rightarrow> False)"
  shows "snd (SendBundleWithConfirmation env txs) = Err max_retries_error \<and>
         Error max_retries_error =
           ''BroadcastBundleWithConfirmation error: max retries (5) exceeded''"
proof -
  have cont: "snd (confirmation_iteration env txs resp i) = Continue"
    if "i < CheckBundleRetries" for i
  proof -
    from every that have ctx: "GRPCCtx_Err env i = None"
      and rcv: "case BundleStreamSubscription_Recv env i of
           Inl err \<Rightarrow> True
         | Inr bundleResult \<Rightarrow> handleBundleResult bundleResult = None"
      and wt: "case snd (waitForSignatureStatuses env i txs) of
           Err err \<Rightarrow> True
         | Ok statuses \<Rightarrow> (\<exists>err. ValidateSignatureStatuses statuses = Err err)
         | Panic p \<Rightarrow> False"
      by blast+
    from wt have "snd (check_statuses env txs resp i) = Continue"
      by (auto simp: check_statuses_def split: prod.splits result.splits)
    with ctx rcv show ?thesis
      by (auto simp: confirmation_iteration_def split: sum.splits prod.splits)
  qed
  have "confirmation_loop env txs resp 0 =
     (concat (map (\<lambda>j. fst (confirmation_iteration env txs resp j)) [0..<CheckBundleRetries]) @
        fst (confirmation_loop env txs resp CheckBundleRetries),
      snd (confirmation_loop env txs resp CheckBundleRetries))"
    using cont by (intro loop_unroll) auto
  then have "snd (confirmation_loop env txs resp 0) = Err max_retries_error"
    by (simp add: loop_end)
  moreover have "decimal 5 = ''5''" by code_simp
  ultimately show ?thesis using send
    by (auto simp: SendBundleWithConfirmation_def max_retries_error_def CheckBundleRetries_def
          split: prod.splits)
qed

text \<open>
  C3, with statuses that stay absent through all five iterations.
\<close>

theorem retries_exhausted_witness:
  "snd (SendBundleWithConfirmation absent_env [tx_a, tx_b]) = Err max_retries_error \<and>
   Error max_retries_error =
     ''BroadcastBundleWithConfirmation error: max retries (5) exceeded''"
proof -
  have every: "\<forall>i<CheckBundleRetries.
        GRPCCtx_Err absent_env i = None \<and>
        (case BundleStreamSubscription_Recv absent_env i of
           Inl err \<Rightarrow> True
         | Inr bundleResult \<Rightarrow> handleBundleResult bundleResult = None) \<and>
        (case snd (waitForSignatureStatuses absent_env i [tx_a, tx_b]) of
           Err err \<Rightarrow> True
         | Ok statuses \<Rightarrow> (\<exists>err. ValidateSignatureStatuses statuses = Err err)
         | Panic p \<Rightarrow> False)"
    by (simp add: wait_absent) (simp add: absent_env_def)
  from retries_exhausted [OF send_absent every] show ?thesis .
qed

section \<open>Classification of rejections\<close>

text \<open>
  Each of the five listed rejection reasons is turned into a non-nil
  \<open>BundleRejectionError\<close> by the constructor of that reason, and errors built for two
  different reasons are never equal, whatever their payloads.
\<close>

lemma rejections_are_classified:
  "handleBundleResult \<lparr>BundleId = b, Result = BundleResult_Rejected
      (Rejected_SimulationFailure sig msg)\<rparr> = Some (NewSimulationFailureError sig (GetMsg msg)) \<and>
   handleBundleResult \<lparr>BundleId = b, Result = BundleResult_Rejected
      (Rejected_StateAuctionBidRejected auction tip)\<rparr> =
      Some (NewStateAuctionBidRejectedError auction tip) \<and>
   handleBundleResult \<lparr>BundleId = b, Result = BundleResult_Rejected
      (Rejected_WinningBatchBidRejected auction tip)\<rparr> =
      Some (NewWinningBatchBidRejectedError auction tip) \<and>
   handleBundleResult \<lparr>BundleId = b, Result = BundleResult_Rejected
      (Rejected_InternalError m)\<rparr> = Some (NewInternalError m) \<and>
   handleBundleResult \<lparr>BundleId = b, Result = BundleResult_Rejected
      (Rejected_DroppedBundle m)\<rparr> = Some (NewDroppedBundle m) \<and>
   NewSimulationFailureError s1 m1 \<noteq> NewStateAuctionBidRejectedError a2 t2 \<and>
   NewSimulationFailureError s1 m1 \<noteq> NewWinningBatchBidRejectedError a2 t2 \<and>
   NewSimulationFailureError s1 m1 \<noteq> NewInternalError m2 \<and>
   NewSimulationFailureError s1 m1 \<noteq> NewDroppedBundle m2 \<and>
   NewStateAuctionBidRejectedError a1 t1 \<noteq> NewWinningBatchBidRejectedError a2 t2 \<and>
   NewStateAuctionBidRejectedError a1 t1 \<noteq> NewInternalError m2 \<and>
   NewStateAuctionBidRejectedError a1 t1 \<noteq> NewDroppedBundle m2 \<and>
   NewWinningBatchBidRejectedError a1 t1 \<noteq> NewInternalError m2 \<and>
   NewWinningBatchBidRejectedError a1 t1 \<noteq> NewDroppedBundle m2 \<and>
   NewInternalError m1 \<noteq> NewDroppedBundle m2 \<and>
   (\<exists>text. NewSimulationFailureError s1 m1 = BundleRejectionError text) \<and>
   (\<exists>text. NewStateAuctionBidRejectedError a1 t1 = BundleRejectionError text) \<and>
   (\<exists>text. NewWinningBatchBidRejectedError a1 t1 = BundleRejectionError text) \<and>
   (\<exists>text. NewInternalError m1 = BundleRejectionError text) \<and>
   (\<exists>text. NewDroppedBundle m1 = BundleRejectionError text)"
  by (simp add: NewSimulationFailureError_def NewStateAuctionBidRejectedError_def
        NewWinningBatchBidRejectedError_def NewInternalError_def NewDroppedBundle_def)

lemma dropped_env_stream:
  "GRPCCtx_Err dropped_env i = None"
  "BundleStreamSubscription_Recv dropped_env 2 = Inr (rejected_result Reason_other)"
  "i \<noteq> 2 \<Longrightarrow> BundleStreamSubscription_Recv dropped_env i = Inl (external ''EOF'')"
  by (simp_all add: dropped_env_def confirmed_env_def absent_env_def)

lemma send_dropped: "SendBundle dropped_env [tx_a, tx_b] =
  ([Call_SendBundle], Ok \<lparr>Uuid = ''uuid''\<rparr>)"
  by (simp add: SendBundle_def NewBundle_def ConvertBatchTransactionToProtobufPacket_def
      ConvertTransactionToProtobufPacket_def dropped_env_def env_simps)

lemma wait_dropped_early:
  "i \<noteq> 2 \<Longrightarrow> waitForSignatureStatuses dropped_env i [tx_a, tx_b] =
   ([Call_GetSignatureStatuses], Err (errorString ''operation timed out after 15 seconds''))"
  unfolding waitForSignatureStatuses_def
  by (subst waitForSignatureStatuses_loop.simps)
     (simp add: batch_a_b dropped_env_def confirmed_env_def absent_env_def
        SignaturesConfirmationTimeout_def Second_def)

lemma wait_dropped_third:
  "waitForSignatureStatuses dropped_env 2 [tx_a, tx_b] =
   ([Call_GetSignatureStatuses],
    Ok [Some \<lparr>Slot = 1, ConfirmationStatus = ''confirmed''\<rparr>,
        Some \<lparr>Slot = 1, ConfirmationStatus = ''confirmed''\<rparr>])"
  unfolding waitForSignatureStatuses_def
  by (subst waitForSignatureStatuses_loop.simps)
     (simp add: batch_a_b dropped_env_def confirmed_env_def absent_env_def)

lemma it_dropped_early:
  "i \<noteq> 2 \<Longrightarrow> snd (confirmation_iteration dropped_env [tx_a, tx_b] resp i) = Continue"
  by (simp add: confirmation_iteration_def check_statuses_def wait_dropped_early
        dropped_env_stream)

lemma it_dropped_third:
  "confirmation_iteration dropped_env [tx_a, tx_b] resp 2 =
     ([Sleep CheckBundleRetryDelay, Call_Recv, Log ''Bundle was sent.'',
       Call_GetSignatureStatuses],
      Return (Ok \<lparr>BundleResponse = resp, BundleResponse_Signatures = [[1, 2], [7]]\<rparr>))"
  by (simp add: confirmation_iteration_def check_statuses_def wait_dropped_third batch_a_b
        ConfirmationStatusProcessed_def ConfirmationStatusConfirmed_def dropped_env_stream
        rejected_result_def)

text \<open>
  C8. Every rejection is to come back as a classified error. The code does so for the
  five listed reasons, and misses the rejection that carries none of them: the inner type
  switch of \<open>handleBundleResult\<close> falls into its \<open>default\<close> branch and returns nil. The
  iteration that reads such a rejection logs that the bundle was sent and goes on to poll
  the statuses, and the call can return a confirmed result for the rejected bundle.
\<close>

theorem rejection_without_reason_dropped:
  "handleBundleResult \<lparr>BundleId = ''bundle-1'', Result = BundleResult_Rejected Reason_other\<rparr>
     = None \<and>
   confirmation_iteration dropped_env [tx_a, tx_b] \<lparr>Uuid = ''uuid''\<rparr> 2 =
     ([Sleep CheckBundleRetryDelay, Call_Recv, Log ''Bundle was sent.'',
       Call_GetSignatureStatuses],
      Return (Ok \<lparr>BundleResponse = \<lparr>Uuid = ''uuid''\<rparr>,
                   BundleResponse_Signatures = [[1, 2], [7]]\<rparr>)) \<and>
   snd (SendBundleWithConfirmation dropped_env [tx_a, tx_b]) =
     Ok \<lparr>BundleResponse = \<lparr>Uuid = ''uuid''\<rparr>, BundleResponse_Signatures = [[1, 2], [7]]\<rparr>"
proof -
  have before: "\<forall>j<2. snd (confirmation_iteration dropped_env [tx_a, tx_b]
                   \<lparr>Uuid = ''uuid''\<rparr> j) = Continue"
    by (simp add: it_dropped_early)
  have "snd (SendBundleWithConfirmation dropped_env [tx_a, tx_b]) =
      Ok \<lparr>BundleResponse = \<lparr>Uuid = ''uuid''\<rparr>, BundleResponse_Signatures = [[1, 2], [7]]\<rparr>"
    using run_return [OF send_dropped _ before it_dropped_third]
    by (simp add: CheckBundleRetries_def)
  then show ?thesis by (simp add: it_dropped_third)
qed

section \<open>Opening a connection\<close>

text \<open>
  C7. An empty address, an address the parser rejects, and an address that parses
  without a host each make \<open>CreateGRPCConnection\<close> return an error before any dial: no
  connection is made. An address with a host and no port is dialled at port 80 when its
  scheme is \<open>http\<close> and at port 443 otherwise.
\<close>

theorem invalid_endpoint_and_default_port:
  "CreateGRPCConnection net ch [] opts = ([], Inl (errorString ''gRPC address is required'')) \<and>
   (a1 \<noteq> [] \<and> url_Parse net a1 = Inl err \<longrightarrow>
      CreateGRPCConnection net ch a1 opts =
        ([], Inl (wrapError (''could not parse grpcAddr: '' @ Error err) err))) \<and>
   (a2 \<noteq> [] \<and> url_Parse net a2 = Inr u2 \<and> URL_Hostname u2 = [] \<longrightarrow>
      CreateGRPCConnection net ch a2 opts =
        ([], Inl (errorString
           ''please provide URL format endpoint e.g. http(s)://<endpoint>:<port>''))) \<and>
   (a3 \<noteq> [] \<and> url_Parse net a3 = Inr u3 \<and> URL_Hostname u3 \<noteq> [] \<and> URL_Port u3 = [] \<longrightarrow>
      fst (CreateGRPCConnection net ch a3 opts) =
        [Dial (URL_Hostname u3 @ '':'' @ (if URL_Scheme u3 = ''http'' then ''80'' else ''443''))
           (opts @
            [WithTransportCredentials
               (if URL_Scheme u3 = ''http'' then insecure_NewCredentials
                else NewClientTLSFromCert),
             WithKeepaliveParams kacp])])"
  by (auto simp: CreateGRPCConnection_def Let_def split: sum.splits)

text \<open>
  C7, at an address without a scheme, an address that is only a host name, and an
  \<open>https\<close> and an \<open>http\<close> address without a port.
\<close>

theorem invalid_endpoint_and_default_port_witness:
  "CreateGRPCConnection example_net None ''://nowhere'' [] =
     ([], Inl (wrapError ''could not parse grpcAddr: missing protocol scheme''
                 (external ''missing protocol scheme''))) \<and>
   CreateGRPCConnection example_net None ''ny.example.org'' [] =
     ([], Inl (errorString
        ''please provide URL format endpoint e.g. http(s)://<endpoint>:<port>'')) \<and>
   fst (CreateGRPCConnection example_net None ''https://ny.example.org'' []) =
     [Dial ''ny.example.org:443'' tls_opts] \<and>
   fst (CreateGRPCConnection example_net None ''http://localhost'' []) =
     [Dial ''localhost:80''
        [WithTransportCredentials insecure_NewCredentials, WithKeepaliveParams kacp]]"
  using invalid_endpoint_and_default_port [of example_net None "[]" "''://nowhere''"
      "external ''missing protocol scheme''" "''ny.example.org''"
      "\<lparr>URL_Scheme = [], URL_Hostname = [], URL_Port = []\<rparr>" "''https://ny.example.org''"
      "\<lparr>URL_Scheme = ''https'', URL_Hostname = ''ny.example.org'', URL_Port = []\<rparr>"]
    invalid_endpoint_and_default_port [of example_net None "[]" "''://nowhere''"
      "external ''missing protocol scheme''" "''ny.example.org''"
      "\<lparr>URL_Scheme = [], URL_Hostname = [], URL_Port = []\<rparr>" "''http://localhost''"
      "\<lparr>URL_Scheme = ''http'', URL_Hostname = ''localhost'', URL_Port = []\<rparr>"]
  by (simp add: example_net_def tls_opts_def)

section \<open>The health loop\<close>

lemma CreateGRPCConnection_start:
  "CreateGRPCConnection net ch grpcAddr opts = (ev0, Inr m0) \<Longrightarrow>
     retries m0 = 0 \<and> chErr m0 = ch \<and> ev0 = [Dial (address m0) (dial_opts m0)]"
  by (auto simp: CreateGRPCConnection_def Let_def split: if_splits sum.splits)

lemma monitor_step_keeps:
  "monitor_step m ob = (ev, Running m') \<Longrightarrow> retries m \<le> 5 \<Longrightarrow>
     retries m' \<le> 5 \<and> address m' = address m \<and> dial_opts m' = dial_opts m \<and>
     chErr m' = chErr m"
  by (auto simp: monitor_step_def redial_def Let_def split: if_splits option.splits sum.splits)

lemma monitor_run_keeps:
  "monitor_run m obs = (ev, Running m') \<Longrightarrow> retries m \<le> 5 \<Longrightarrow>
     retries m' \<le> 5 \<and> address m' = address m \<and> dial_opts m' = dial_opts m \<and>
     chErr m' = chErr m"
proof (induction obs arbitrary: m ev)
  case Nil
  then show ?case by simp
next
  case (Cons ob obs)
  obtain ev1 t where st: "monitor_step m ob = (ev1, t)"
    by (cases "monitor_step m ob")
  with Cons.prems(1) obtain m1 where t: "t = Running m1"
    by (cases t) auto
  obtain ev2 t2 where rn: "monitor_run m1 obs = (ev2, t2)"
    by (cases "monitor_run m1 obs")
  with Cons.prems(1) st t have t2: "t2 = Running m'" by simp
  from monitor_step_keeps [OF st [unfolded t] Cons.prems(2)]
  have k1: "retries m1 \<le> 5" "address m1 = address m" "dial_opts m1 = dial_opts m"
    "chErr m1 = chErr m" by simp_all
  from Cons.IH [OF rn [unfolded t2] k1(1)] k1 show ?case by simp
qed

text \<open>
  C6. Take any state the health loop of a connection made by \<open>CreateGRPCConnection\<close>
  reaches, and a pass in which the context is live. The counter is at most 5. When the
  connection reports TransientFailure, Connecting or Idle: below 5 the loop sleeps for
  the counter's number of seconds, resets the connect backoff and adds one to the
  counter; it closes the connection, and it dials, exactly when the counter is 5, and
  then it dials the address and options of the first dial and, if it runs on, the
  counter is zero. When the connection reports Ready the counter becomes zero.
\<close>

theorem health_loop_retries:
  assumes start: "CreateGRPCConnection net ch grpcAddr opts = (ev0, Inr m0)"
    and reach: "monitor_run m0 obs = (ev, Running m)"
    and live: "\<not> ctx_Done ob"
  shows "ev0 = [Dial (address m0) (dial_opts m0)] \<and> retries m \<le> 5 \<and>
    (GetState ob = TransientFailure \<or> GetState ob = Connecting \<or> GetState ob = Idle \<longrightarrow>
       (retries m < 5 \<longrightarrow>
          monitor_step m ob =
            ([Sleep (int (retries m) * Second), ResetConnectBackoff (conn m),
              WaitForStateChange (conn m) (GetState ob)],
             Running (m\<lparr>retries := retries m + 1\<rparr>))) \<and>
       ((\<exists>a os. Dial a os \<in> set (fst (monitor_step m ob))) = (retries m = 5)) \<and>
       (Close (conn m) \<in> set (fst (monitor_step m ob))) = (retries m = 5) \<and>
       (retries m = 5 \<longrightarrow>
          take 2 (fst (monitor_step m ob)) = [Close (conn m), Dial (address m0) (dial_opts m0)] \<and>
          (\<forall>m'. snd (monitor_step m ob) = Running m' \<longrightarrow> retries m' = 0))) \<and>
    (GetState ob = Ready \<longrightarrow>
       monitor_step m ob = ([Sleep (1 * Second)], Running (m\<lparr>retries := 0\<rparr>)))"
proof -
  from CreateGRPCConnection_start [OF start]
  have s: "retries m0 = 0" "ev0 = [Dial (address m0) (dial_opts m0)]" by simp_all
  from monitor_run_keeps [OF reach] s(1)
  have k: "retries m \<le> 5" "address m = address m0" "dial_opts m = dial_opts m0" by simp_all
  have ready: "GetState ob = Ready \<Longrightarrow>
       monitor_step m ob = ([Sleep (1 * Second)], Running (m\<lparr>retries := 0\<rparr>))"
    using live by (simp add: monitor_step_def)
  have low: "monitor_step m ob =
            ([Sleep (int (retries m) * Second), ResetConnectBackoff (conn m),
              WaitForStateChange (conn m) (GetState ob)],
             Running (m\<lparr>retries := retries m + 1\<rparr>))"
    if "GetState ob = TransientFailure \<or> GetState ob = Connecting \<or> GetState ob = Idle"
      and "retries m < 5"
    using that live by (auto simp: monitor_step_def)
  have high: "monitor_step m ob = redial m ob (GetState ob) [Close (conn m)]"
    if "GetState ob = TransientFailure \<or> GetState ob = Connecting \<or> GetState ob = Idle"
      and "retries m = 5"
    using that live by (auto simp: monitor_step_def)
  have hd2: "take 2 (fst (redial m ob st [Close (conn m)])) =
      [Close (conn m), Dial (address m0) (dial_opts m0)]" for st
    by (simp add: redial_def k split: sum.splits option.splits)
  have zero: "snd (redial m ob st before) = Running m' \<Longrightarrow> retries m' = 0" for st before m'
    by (auto simp: redial_def split: sum.splits option.splits)
  have dial_in: "\<exists>a os. Dial a os \<in> set (fst (redial m ob st before))" for st before
    by (auto simp: redial_def split: sum.splits option.splits)
  have close_in: "Close (conn m) \<in> set (fst (redial m ob st [Close (conn m)]))" for st
    by (auto simp: redial_def split: sum.splits option.splits)
  show ?thesis
  proof (intro conjI impI)
    show "ev0 = [Dial (address m0) (dial_opts m0)]" by (rule s(2))
    show "retries m \<le> 5" by (rule k(1))
  next
    assume f: "GetState ob = TransientFailure \<or> GetState ob = Connecting \<or> GetState ob = Idle"
      and "retries m < 5"
    then show "monitor_step m ob =
            ([Sleep (int (retries m) * Second), ResetConnectBackoff (conn m),
              WaitForStateChange (conn m) (GetState ob)],
             Running (m\<lparr>retries := retries m + 1\<rparr>))"
      by (rule low)
  next
    assume f: "GetState ob = TransientFailure \<or> GetState ob = Connecting \<or> GetState ob = Idle"
    show "(\<exists>a os. Dial a os \<in> set (fst (monitor_step m ob))) = (retries m = 5)"
    proof (cases "retries m = 5")
      case True
      with high [OF f] dial_in show ?thesis by simp
    next
      case False
      with k(1) have "retries m < 5" by simp
      from low [OF f this] False show ?thesis by simp
    qed
    show "(Close (conn m) \<in> set (fst (monitor_step m ob))) = (retries m = 5)"
    proof (cases "retries m = 5")
      case True
      with high [OF f] close_in show ?thesis by simp
    next
      case False
      with k(1) have "retries m < 5" by simp
      from low [OF f this] False show ?thesis by simp
    qed
  next
    assume f: "GetState ob = TransientFailure \<or> GetState ob = Connecting \<or> GetState ob = Idle"
      and five: "retries m = 5"
    show "take 2 (fst (monitor_step m ob)) = [Close (conn m), Dial (address m0) (dial_opts m0)]"
      using high [OF f five] hd2 by simp
    show "\<forall>m'. snd (monitor_step m ob) = Running m' \<longrightarrow> retries m' = 0"
      using high [OF f five] zero by simp
  next
    assume "GetState ob = Ready"
    then show "monitor_step m ob = ([Sleep (1 * Second)], Running (m\<lparr>retries := 0\<rparr>))"
      by (rule ready)
  qed
qed

lemma start_example:
  "CreateGRPCConnection example_net None ''https://ny.example.org'' [] =
     ([Dial ''ny.example.org:443'' tls_opts], Inr (example_monitor 0))"
  by (simp add: CreateGRPCConnection_def Let_def example_net_def example_monitor_def tls_opts_def)

lemma step_failing:
  "n < 5 \<Longrightarrow> monitor_step (example_monitor n) failing =
     ([Sleep (int n * Second), ResetConnectBackoff 1, WaitForStateChange 1 TransientFailure],
      Running (example_monitor (Suc n)))"
  by (simp add: monitor_step_def example_monitor_def failing_def)

lemma run_failing:
  "n + k \<le> 5 \<Longrightarrow>
     \<exists>ev. monitor_run (example_monitor n) (replicate k failing) =
            (ev, Running (example_monitor (n + k)))"
proof (induction k arbitrary: n)
  case 0
  then show ?case by simp
next
  case (Suc k)
  then have "n < 5" and "Suc n + k \<le> 5" by simp_all
  from Suc.IH [OF this(2)] step_failing [OF this(1)] show ?case by auto
qed

text \<open>
  C6, on a connection to \<open>ny.example.org:443\<close>: after two failing passes, after five,
  and on a ready pass.
\<close>

theorem health_loop_retries_witness:
  "monitor_step (example_monitor 2) failing =
     ([Sleep (2 * Second), ResetConnectBackoff 1, WaitForStateChange 1 TransientFailure],
      Running (example_monitor 3)) \<and>
   \<not> (\<exists>a os. Dial a os \<in> set (fst (monitor_step (example_monitor 2) failing))) \<and>
   Close 1 \<notin> set (fst (monitor_step (example_monitor 2) failing)) \<and>
   take 2 (fst (monitor_step (example_monitor 5) failing)) =
     [Close 1, Dial ''ny.example.org:443'' tls_opts] \<and>
   monitor_step (example_monitor 5) failing =
     ([Close 1, Dial ''ny.example.org:443'' tls_opts, WaitForStateChange 2 TransientFailure],
      Running ((example_monitor 0)\<lparr>conn := 2\<rparr>)) \<and>
   monitor_step (example_monitor 5) ready = ([Sleep (1 * Second)], Running (example_monitor 0))"
proof -
  have le: "(0::nat) + 2 \<le> 5" "(0::nat) + 5 \<le> 5" by simp_all
  from run_failing [OF le(1)] obtain ev2 where
    "monitor_run (example_monitor 0) (replicate 2 failing) =
       (ev2, Running (example_monitor (0 + 2)))"
    by blast
  then have two:
    "monitor_run (example_monitor 0) (replicate 2 failing) = (ev2, Running (example_monitor 2))"
    by (simp add: numeral_2_eq_2)
  from run_failing [OF le(2)] obtain ev5 where
    "monitor_run (example_monitor 0) (replicate 5 failing) =
       (ev5, Running (example_monitor (0 + 5)))"
    by blast
  then have five:
    "monitor_run (example_monitor 0) (replicate 5 failing) = (ev5, Running (example_monitor 5))"
    by simp
  have live: "\<not> ctx_Done failing" "\<not> ctx_Done ready"
    by (simp_all add: failing_def ready_def)
  have st: "GetState failing = TransientFailure" "GetState ready = Ready"
    by (simp_all add: failing_def ready_def)
  have m: "conn (example_monitor n) = 1" "retries (example_monitor n) = n"
    "address (example_monitor n) = ''ny.example.org:443''"
    "dial_opts (example_monitor n) = tls_opts"
    "(example_monitor n)\<lparr>retries := k\<rparr> = example_monitor k" for n k
    by (simp_all add: example_monitor_def)
  note t2 = health_loop_retries [OF start_example two live(1)]
  note t5 = health_loop_retries [OF start_example five live(1)]
  note r5 = health_loop_retries [OF start_example five live(2)]
  have lt: "retries (example_monitor 2) < 5" "retries (example_monitor 2) \<noteq> 5"
    "retries (example_monitor 5) = 5"
    by (simp_all add: m)
  have c1: "monitor_step (example_monitor 2) failing =
     ([Sleep (2 * Second), ResetConnectBackoff 1, WaitForStateChange 1 TransientFailure],
      Running (example_monitor 3))"
    using t2 lt(1) st(1) by (simp add: m)
  have c2: "\<not> (\<exists>a os. Dial a os \<in> set (fst (monitor_step (example_monitor 2) failing)))"
    using t2 lt(2) st(1) by blast
  have c3: "Close 1 \<notin> set (fst (monitor_step (example_monitor 2) failing))"
    using t2 lt(2) st(1) m(1) [of 2] by metis
  have c4: "take 2 (fst (monitor_step (example_monitor 5) failing)) =
     [Close 1, Dial ''ny.example.org:443'' tls_opts]"
    using t5 lt(3) st(1) m(1) [of 5] m(3) [of 0] m(4) [of 0] by metis
  have c5: "monitor_step (example_monitor 5) failing =
     ([Close 1, Dial ''ny.example.org:443'' tls_opts, WaitForStateChange 2 TransientFailure],
      Running ((example_monitor 0)\<lparr>conn := 2\<rparr>))"
    by (simp add: monitor_step_def redial_def example_monitor_def failing_def)
  have c6: "monitor_step (example_monitor 5) ready =
      ([Sleep (1 * Second)], Running (example_monitor 0))"
    using r5 [THEN conjunct2, THEN conjunct2, THEN conjunct2, THEN mp, OF st(2)]
    by (simp add: m(5))
  from c1 c2 c3 c4 c5 c6 show ?thesis by blast
qed

section \<open>The refresh loop\<close>

lemma handshake_example:
  "AuthenticateAndRefresh example_handshake (NewAuthenticationService Background [1, 2])
     Role_SEARCHER =
     ([Call_GenerateAuthChallenge, Call_GenerateAuthTokens], Authenticated example_auth ''refresh'')"
  by (simp add: AuthenticateAndRefresh_def NewAuthenticationService_def example_handshake_def
        generateChallengeSignature_def updateAuthorizationMetadata_def example_access_def
        example_refresh_def example_auth_def Let_def)

lemma Authenticated_token:
  assumes "AuthenticateAndRefresh hs as0 role = (ev0, Authenticated as1 rt)"
  shows "\<exists>challenge sig pk accessToken refreshToken.
           GenerateAuthTokens hs challenge sig pk = Inr (accessToken, refreshToken) \<and>
           rt = Value refreshToken \<and> as1 = updateAuthorizationMetadata as0 accessToken"
  using assms
  by (auto simp: AuthenticateAndRefresh_def Let_def
        split: option.splits sum.splits prod.splits bool.splits; blast)

lemma Context_Err_cancelled:
  "Context_Err c ctx = Some e \<Longrightarrow> c = Some e"
  by (induction ctx) auto

lemma Context_Err_live:
  "Context_Err None ctx = None"
  by (induction ctx) auto

lemma chan_send_room:
  "(chan_send (Some c) n e \<noteq> None) = (length (buffered c) < n + capacity c)"
  by auto

lemma refresh_step_calls:
  "e \<in> set (fst (refresh_step rt as ob)) \<Longrightarrow> e = Call_RefreshAccessToken t \<Longrightarrow> t = rt"
  by (auto simp: refresh_step_def Let_def split: option.splits sum.splits if_splits)

lemma refresh_step_Finished:
  "snd (refresh_step rt as ob) = Finished \<Longrightarrow> Context_Err (cancelled ob) (GRPCCtx as) \<noteq> None"
  by (auto simp: refresh_step_def Let_def split: option.splits sum.splits)

lemma refresh_step_not_Panicked:
  "snd (refresh_step rt as ob) \<noteq> Panicked p"
  by (auto simp: refresh_step_def Let_def split: option.splits sum.splits)

lemma refresh_step_first:
  "Context_Err (cancelled ob) (GRPCCtx as) = None \<Longrightarrow>
     \<exists>rest. fst (refresh_step rt as ob) = Call_RefreshAccessToken rt # rest"
  by (auto simp: refresh_step_def Let_def split: option.splits sum.splits)

lemma refresh_step_failed:
  assumes "Context_Err (cancelled ob) (GRPCCtx as) = None"
    and "RefreshAccessToken ob rt = Inl err"
  shows "refresh_step rt as ob =
     (case chan_send (ErrChan as) (received ob)
             (wrapError (''failed to refresh access token: '' @ Error err) err) of
        None \<Rightarrow> ([Call_RefreshAccessToken rt], Blocked)
      | Some ch \<Rightarrow>
          ([Call_RefreshAccessToken rt,
            Push (wrapError (''failed to refresh access token: '' @ Error err) err),
            Sleep (1 * Minute)],
           Running (as\<lparr>ErrChan := Some ch\<rparr>)))"
  using assms by (simp add: refresh_step_def)

lemma refresh_run_Cons:
  "fst (refresh_run rt as (ob # obs)) =
     fst (refresh_step rt as ob) @
     (case snd (refresh_step rt as ob) of
        Running as' \<Rightarrow> fst (refresh_run rt as' obs)
      | Finished \<Rightarrow> []
      | Panicked p \<Rightarrow> []
      | Blocked \<Rightarrow> [])"
  by (cases "refresh_step rt as ob") (auto split: task.splits prod.splits)

lemma refresh_run_calls:
  "e \<in> set (fst (refresh_run rt as obs)) \<Longrightarrow> e = Call_RefreshAccessToken t \<Longrightarrow> t = rt"
proof (induction obs arbitrary: as)
  case Nil
  then show ?case by simp
next
  case (Cons ob obs)
  from Cons.prems(1) have "e \<in> set (fst (refresh_step rt as ob)) \<or>
      (\<exists>as'. e \<in> set (fst (refresh_run rt as' obs)))"
    unfolding refresh_run_Cons by (auto split: task.splits)
  then show ?case
  proof
    assume "e \<in> set (fst (refresh_step rt as ob))"
    then show ?thesis using Cons.prems(2) by (rule refresh_step_calls)
  next
    assume "\<exists>as'. e \<in> set (fst (refresh_run rt as' obs))"
    then obtain as' where "e \<in> set (fst (refresh_run rt as' obs))" by blast
    then show ?thesis using Cons.prems(2) by (rule Cons.IH)
  qed
qed

lemma refresh_run_Finished:
  "snd (refresh_run rt as obs) = Finished \<Longrightarrow> \<exists>ob \<in> set obs. cancelled ob \<noteq> None"
proof (induction obs arbitrary: as)
  case Nil
  then show ?case by simp
next
  case (Cons ob obs)
  obtain ev1 t1 where st: "refresh_step rt as ob = (ev1, t1)"
    by (cases "refresh_step rt as ob")
  show ?case
  proof (cases t1)
    case (Running as')
    with Cons.prems st have "snd (refresh_run rt as' obs) = Finished"
      by (simp split: prod.splits)
    from Cons.IH [OF this] show ?thesis by simp
  next
    case Finished
    with st have "snd (refresh_step rt as ob) = Finished" by simp
    then obtain e where "Context_Err (cancelled ob) (GRPCCtx as) = Some e"
      using refresh_step_Finished by blast
    then have "cancelled ob = Some e" by (rule Context_Err_cancelled)
    then show ?thesis by simp
  next
    case (Panicked p)
    with st Cons.prems show ?thesis by simp
  next
    case Blocked
    with st Cons.prems show ?thesis by simp
  qed
qed

lemma refresh_run_not_Panicked:
  "snd (refresh_run rt as obs) \<noteq> Panicked p"
proof (induction obs arbitrary: as)
  case Nil
  then show ?case by simp
next
  case (Cons ob obs)
  obtain ev1 t1 where st: "refresh_step rt as ob = (ev1, t1)"
    by (cases "refresh_step rt as ob")
  show ?case
  proof (cases t1)
    case (Running as')
    with st Cons.IH [of as'] show ?thesis by (auto split: prod.splits)
  next
    case Finished
    with st show ?thesis by simp
  next
    case (Panicked q)
    with st refresh_step_not_Panicked [of rt as ob q] show ?thesis by simp
  next
    case Blocked
    with st show ?thesis by simp
  qed
qed

lemma refresh_step_read:
  assumes "cancelled ob = None" and "0 < received ob"
    and "ErrChan as = Some c" and "length (buffered c) \<le> capacity c" and "0 < capacity c"
  shows "\<exists>as' c'. snd (refresh_step rt as ob) = Running as' \<and> ErrChan as' = Some c' \<and>
           length (buffered c') \<le> capacity c' \<and> 0 < capacity c'"
proof -
  have live: "Context_Err (cancelled ob) (GRPCCtx as) = None"
    using assms(1) by (simp add: Context_Err_live)
  show ?thesis
  proof (cases "RefreshAccessToken ob rt")
    case (Inl err)
    from assms(2,4,5) have "chan_send (Some c) (received ob)
        (wrapError (''failed to refresh access token: '' @ Error err) err) \<noteq> None"
      unfolding chan_send_room by simp
    with assms(2-5) show ?thesis
      unfolding refresh_step_failed [OF live Inl] by (auto split: if_splits)
  next
    case (Inr token)
    with live assms(3-5) show ?thesis
      by (simp add: refresh_step_def Let_def updateAuthorizationMetadata_def chan_receive_def)
  qed
qed

lemma refresh_run_read:
  assumes "\<forall>ob \<in> set obs. cancelled ob = None \<and> 0 < received ob"
    and "ErrChan as = Some c" and "length (buffered c) \<le> capacity c" and "0 < capacity c"
  shows "\<exists>as'. snd (refresh_run rt as obs) = Running as'"
  using assms
proof (induction obs arbitrary: as c)
  case Nil
  then show ?case by simp
next
  case (Cons ob obs)
  then have "cancelled ob = None" and "0 < received ob" by simp_all
  from refresh_step_read [OF this Cons.prems(2-4)]
  obtain as' c' where st: "snd (refresh_step rt as ob) = Running as'"
    and c': "ErrChan as' = Some c'" "length (buffered c') \<le> capacity c'" "0 < capacity c'"
    by blast
  from Cons.prems(1) have "\<forall>ob \<in> set obs. cancelled ob = None \<and> 0 < received ob" by simp
  from Cons.IH [OF this c'] obtain as'' where "snd (refresh_run rt as' obs) = Running as''"
    by blast
  with st show ?case
    by (cases "refresh_step rt as ob") (auto split: prod.splits)
qed

text \<open>
  C5, as the code has it. Let \<open>AuthenticateAndRefresh\<close> have returned with the refresh
  goroutine started. The token the goroutine holds is the refresh token of the handshake's
  token exchange, and the first send on the error channel of a new service completes.
  In a pass in which the context is not done and \<open>RefreshAccessToken\<close> fails, the
  goroutine calls the service with that token and sends the wrapped error on the error
  channel. If the send completes, it sleeps for one minute and runs on, and its next
  pass, the context still not done, calls \<open>RefreshAccessToken\<close> with the same token.
  If the send does not complete, the goroutine is blocked in it: it neither sleeps nor
  calls again. The send completes exactly when the channel holds fewer values than its
  capacity and the number its receiver is ready to take. Over any passes every refresh
  call carries the same token; the goroutine returns only in a pass that finds the
  context done, which only a cancelled caller context brings about; it never panics; and
  while its receiver takes a value in every pass and no context is cancelled, it runs on
  however often the refresh fails.
\<close>

theorem refresh_failure_retried:
  assumes "AuthenticateAndRefresh hs as0 role = (ev0, Authenticated as1 rt)"
  shows "(\<exists>challenge sig pk accessToken refreshToken.
            GenerateAuthTokens hs challenge sig pk = Inr (accessToken, refreshToken) \<and>
            rt = Value refreshToken) \<and>
         (as0 = NewAuthenticationService ctx keyPair \<longrightarrow>
            ErrChan as1 = Some (make_chan 1) \<and> chan_send (ErrChan as1) n e \<noteq> None) \<and>
         (Context_Err (cancelled ob) (GRPCCtx as) = None \<and> RefreshAccessToken ob rt = Inl err \<and>
          chan_send (ErrChan as) (received ob)
            (wrapError (''failed to refresh access token: '' @ Error err) err) = Some ch \<longrightarrow>
            refresh_step rt as ob =
              ([Call_RefreshAccessToken rt,
                Push (wrapError (''failed to refresh access token: '' @ Error err) err),
                Sleep (1 * Minute)],
               Running (as\<lparr>ErrChan := Some ch\<rparr>)) \<and>
            (Context_Err (cancelled ob') (GRPCCtx as) = None \<longrightarrow>
               take 4 (fst (refresh_run rt as (ob # ob' # obs'))) =
                 [Call_RefreshAccessToken rt,
                  Push (wrapError (''failed to refresh access token: '' @ Error err) err),
                  Sleep (1 * Minute),
                  Call_RefreshAccessToken rt])) \<and>
         (Context_Err (cancelled ob) (GRPCCtx as) = None \<and> RefreshAccessToken ob rt = Inl err \<and>
          chan_send (ErrChan as) (received ob)
            (wrapError (''failed to refresh access token: '' @ Error err) err) = None \<longrightarrow>
            refresh_step rt as ob = ([Call_RefreshAccessToken rt], Blocked)) \<and>
         (ErrChan as = Some c \<longrightarrow>
            (chan_send (ErrChan as) n e \<noteq> None) = (length (buffered c) < n + capacity c)) \<and>
         (\<forall>x \<in> set (fst (refresh_run rt as obs)). \<forall>t. x = Call_RefreshAccessToken t \<longrightarrow> t = rt) \<and>
         (snd (refresh_step rt as ob) = Finished \<longrightarrow>
            Context_Err (cancelled ob) (GRPCCtx as) \<noteq> None) \<and>
         (snd (refresh_run rt as obs) = Finished \<longrightarrow> (\<exists>ob \<in> set obs. cancelled ob \<noteq> None)) \<and>
         snd (refresh_run rt as obs) \<noteq> Panicked p \<and>
         (ErrChan as = Some c \<and> length (buffered c) \<le> capacity c \<and> 0 < capacity c \<and>
          (\<forall>ob \<in> set obs. cancelled ob = None \<and> 0 < received ob) \<longrightarrow>
            (\<exists>as'. snd (refresh_run rt as obs) = Running as'))"
proof (intro conjI impI ballI allI)
  from Authenticated_token [OF assms]
  show "\<exists>challenge sig pk accessToken refreshToken.
            GenerateAuthTokens hs challenge sig pk = Inr (accessToken, refreshToken) \<and>
            rt = Value refreshToken"
    by blast
next
  assume new: "as0 = NewAuthenticationService ctx keyPair"
  from Authenticated_token [OF assms] obtain accessToken
    where "as1 = updateAuthorizationMetadata as0 accessToken" by blast
  with new show ch1: "ErrChan as1 = Some (make_chan 1)"
    by (simp add: updateAuthorizationMetadata_def NewAuthenticationService_def)
  show "chan_send (ErrChan as1) n e \<noteq> None"
    unfolding ch1 chan_send_room by (simp add: make_chan_def)
next
  assume a: "Context_Err (cancelled ob) (GRPCCtx as) = None \<and> RefreshAccessToken ob rt = Inl err \<and>
          chan_send (ErrChan as) (received ob)
            (wrapError (''failed to refresh access token: '' @ Error err) err) = Some ch"
  then have live: "Context_Err (cancelled ob) (GRPCCtx as) = None"
    and fails: "RefreshAccessToken ob rt = Inl err" by simp_all
  from a show st: "refresh_step rt as ob =
              ([Call_RefreshAccessToken rt,
                Push (wrapError (''failed to refresh access token: '' @ Error err) err),
                Sleep (1 * Minute)],
               Running (as\<lparr>ErrChan := Some ch\<rparr>))"
    unfolding refresh_step_failed [OF live fails] by simp
  assume "Context_Err (cancelled ob') (GRPCCtx as) = None"
  then have "Context_Err (cancelled ob') (GRPCCtx (as\<lparr>ErrChan := Some ch\<rparr>)) = None" by simp
  from refresh_step_first [OF this] obtain rest
    where nxt: "fst (refresh_step rt (as\<lparr>ErrChan := Some ch\<rparr>) ob') =
      Call_RefreshAccessToken rt # rest"
    by blast
  have "fst (refresh_run rt as (ob # ob' # obs')) =
      fst (refresh_step rt as ob) @ fst (refresh_run rt (as\<lparr>ErrChan := Some ch\<rparr>) (ob' # obs'))"
    unfolding refresh_run_Cons [of rt as ob] by (simp add: st)
  also have "fst (refresh_run rt (as\<lparr>ErrChan := Some ch\<rparr>) (ob' # obs')) =
      Call_RefreshAccessToken rt #
      (rest @ (case snd (refresh_step rt (as\<lparr>ErrChan := Some ch\<rparr>) ob') of
                 Running as' \<Rightarrow> fst (refresh_run rt as' obs')
               | Finished \<Rightarrow> []
               | Panicked p \<Rightarrow> []
               | Blocked \<Rightarrow> []))"
    unfolding refresh_run_Cons [of rt "as\<lparr>ErrChan := Some ch\<rparr>" ob'] nxt by simp
  finally show "take 4 (fst (refresh_run rt as (ob # ob' # obs'))) =
                 [Call_RefreshAccessToken rt,
                  Push (wrapError (''failed to refresh access token: '' @ Error err) err),
                  Sleep (1 * Minute),
                  Call_RefreshAccessToken rt]"
    by (simp add: st)
next
  assume a: "Context_Err (cancelled ob) (GRPCCtx as) = None \<and> RefreshAccessToken ob rt = Inl err \<and>
          chan_send (ErrChan as) (received ob)
            (wrapError (''failed to refresh access token: '' @ Error err) err) = None"
  then have live: "Context_Err (cancelled ob) (GRPCCtx as) = None"
    and fails: "RefreshAccessToken ob rt = Inl err" by simp_all
  from a show "refresh_step rt as ob = ([Call_RefreshAccessToken rt], Blocked)"
    unfolding refresh_step_failed [OF live fails] by simp
next
  assume "ErrChan as = Some c"
  then show "(chan_send (ErrChan as) n e \<noteq> None) = (length (buffered c) < n + capacity c)"
    using chan_send_room [of c n e] by simp
next
  fix x t
  assume "x \<in> set (fst (refresh_run rt as obs))" and "x = Call_RefreshAccessToken t"
  then show "t = rt" by (rule refresh_run_calls)
next
  assume "snd (refresh_step rt as ob) = Finished"
  then show "Context_Err (cancelled ob) (GRPCCtx as) \<noteq> None" by (rule refresh_step_Finished)
next
  assume "snd (refresh_run rt as obs) = Finished"
  then show "\<exists>ob \<in> set obs. cancelled ob \<noteq> None" by (rule refresh_run_Finished)
next
  show "snd (refresh_run rt as obs) \<noteq> Panicked p" by (rule refresh_run_not_Panicked)
next
  assume "ErrChan as = Some c \<and> length (buffered c) \<le> capacity c \<and> 0 < capacity c \<and>
          (\<forall>ob \<in> set obs. cancelled ob = None \<and> 0 < received ob)"
  then show "\<exists>as'. snd (refresh_run rt as obs) = Running as'"
    using refresh_run_read [of obs as c rt] by blast
qed

lemma refresh_fails_live:
  "Context_Err (cancelled refresh_fails) (GRPCCtx example_auth) = None"
  "RefreshAccessToken refresh_fails ''refresh'' = Inl (external ''unavailable'')"
  "received refresh_fails = 0"
  "Context_Err (cancelled refresh_fails) (GRPCCtx held_auth) = None"
  by (simp_all add: refresh_fails_def example_auth_def held_auth_def)

lemma send_first:
  "chan_send (ErrChan example_auth) 0
     (wrapError (''failed to refresh access token: '' @ Error (external ''unavailable''))
        (external ''unavailable'')) =
   Some \<lparr>capacity = 1, buffered = [refresh_error]\<rparr>"
  by (simp add: example_auth_def make_chan_def refresh_error_def)

lemma send_second:
  "chan_send (ErrChan held_auth) 0
     (wrapError (''failed to refresh access token: '' @ Error (external ''unavailable''))
        (external ''unavailable'')) = None"
  by (simp add: held_auth_def)

lemma step_first:
  "refresh_step ''refresh'' example_auth refresh_fails =
     ([Call_RefreshAccessToken ''refresh'', Push refresh_error, Sleep 60000000000],
      Running held_auth)"
  unfolding refresh_step_failed [OF refresh_fails_live(1,2)] refresh_fails_live(3) send_first
  by (simp add: refresh_error_def held_auth_def Minute_def Second_def)

lemma step_second:
  "refresh_step ''refresh'' held_auth refresh_fails = ([Call_RefreshAccessToken ''refresh''], Blocked)"
  unfolding refresh_step_failed [OF refresh_fails_live(4,2)] refresh_fails_live(3) send_second
  by simp

text \<open>
  C5 as stated fails: after the example handshake nothing reads the error channel, and
  the second failed refresh in a row finds its one slot taken. The goroutine calls
  \<open>RefreshAccessToken\<close> and blocks in the send: it pushes nothing, does not sleep and does
  not call again.
\<close>

theorem second_refresh_failure_blocks:
  "refresh_run ''refresh'' example_auth [refresh_fails, refresh_fails, refresh_fails] =
     ([Call_RefreshAccessToken ''refresh'', Push refresh_error, Sleep 60000000000,
       Call_RefreshAccessToken ''refresh''],
      Blocked)"
  by (simp add: step_first step_second)

text \<open>
  C5 as amended, after the example handshake: a first failed refresh, the call that
  follows it, three failed refreshes whose errors are read, and a pass that finds the
  caller's context cancelled, on a service with that context and on the one the handshake
  installed.
\<close>

theorem refresh_failure_retried_witness:
  "refresh_step ''refresh'' example_auth refresh_fails =
     ([Call_RefreshAccessToken ''refresh'', Push refresh_error, Sleep 60000000000],
      Running held_auth) \<and>
   take 4 (fst (refresh_run ''refresh'' example_auth [refresh_fails, refresh_fails])) =
     [Call_RefreshAccessToken ''refresh'', Push refresh_error, Sleep 60000000000,
      Call_RefreshAccessToken ''refresh''] \<and>
   refresh_step ''refresh'' held_auth refresh_fails =
     ([Call_RefreshAccessToken ''refresh''], Blocked) \<and>
   (\<exists>as'. snd (refresh_run ''refresh'' example_auth
              [refresh_fails_read, refresh_fails_read, refresh_fails_read]) = Running as') \<and>
   snd (refresh_step ''refresh'' example_auth caller_cancelled) \<noteq> Finished \<and>
   refresh_step ''refresh'' (example_auth\<lparr>GRPCCtx := CallerContext\<rparr>) caller_cancelled =
     ([Push (external ''context canceled'')], Finished)"
proof -
  note t = refresh_failure_retried [OF handshake_example]
  note first = t [where ob = refresh_fails and as = example_auth
        and err = "external ''unavailable''"
        and ch = "\<lparr>capacity = 1, buffered = [refresh_error]\<rparr>"
        and ob' = refresh_fails and obs' = "[]",
      THEN conjunct2, THEN conjunct2, THEN conjunct1, THEN mp,
      OF conjI [OF refresh_fails_live(1) conjI [OF refresh_fails_live(2)
        send_first [folded refresh_fails_live(3)]]]]
  have c1: "refresh_step ''refresh'' example_auth refresh_fails =
     ([Call_RefreshAccessToken ''refresh'', Push refresh_error, Sleep 60000000000],
      Running held_auth)"
    using first [THEN conjunct1]
    by (simp add: refresh_error_def held_auth_def Minute_def Second_def)
  have c2: "take 4 (fst (refresh_run ''refresh'' example_auth [refresh_fails, refresh_fails])) =
     [Call_RefreshAccessToken ''refresh'', Push refresh_error, Sleep 60000000000,
      Call_RefreshAccessToken ''refresh'']"
    using first [THEN conjunct2, THEN mp, OF refresh_fails_live(1)]
    by (simp add: refresh_error_def Minute_def Second_def)
  have c3: "refresh_step ''refresh'' held_auth refresh_fails =
     ([Call_RefreshAccessToken ''refresh''], Blocked)"
    using t [where ob = refresh_fails and as = held_auth and err = "external ''unavailable''",
      THEN conjunct2, THEN conjunct2, THEN conjunct2, THEN conjunct1, THEN mp,
      OF conjI [OF refresh_fails_live(4) conjI [OF refresh_fails_live(2)
        send_second [folded refresh_fails_live(3)]]]]
    by simp
  have rd: "ErrChan example_auth = Some (make_chan 1) \<and>
      length (buffered (make_chan 1)) \<le> capacity (make_chan 1) \<and> 0 < capacity (make_chan 1) \<and>
      (\<forall>ob \<in> set [refresh_fails_read, refresh_fails_read, refresh_fails_read].
         cancelled ob = None \<and> 0 < received ob)"
    by (simp add: example_auth_def make_chan_def refresh_fails_read_def refresh_fails_def)
  have c4: "\<exists>as'. snd (refresh_run ''refresh'' example_auth
              [refresh_fails_read, refresh_fails_read, refresh_fails_read]) = Running as'"
    using t [where as = example_auth and c = "make_chan 1"
        and obs = "[refresh_fails_read, refresh_fails_read, refresh_fails_read]",
      THEN conjunct2, THEN conjunct2, THEN conjunct2, THEN conjunct2, THEN conjunct2,
      THEN conjunct2, THEN conjunct2, THEN conjunct2, THEN conjunct2, THEN mp, OF rd] .
  have live: "Context_Err (cancelled caller_cancelled) (GRPCCtx example_auth) = None"
    by (simp add: caller_cancelled_def example_auth_def)
  have c5: "snd (refresh_step ''refresh'' example_auth caller_cancelled) \<noteq> Finished"
    using t [where ob = caller_cancelled and as = example_auth,
      THEN conjunct2, THEN conjunct2, THEN conjunct2, THEN conjunct2, THEN conjunct2,
      THEN conjunct2, THEN conjunct1] live
    by blast
  have c6: "refresh_step ''refresh'' (example_auth\<lparr>GRPCCtx := CallerContext\<rparr>) caller_cancelled =
     ([Push (external ''context canceled'')], Finished)"
    by (simp add: refresh_step_def caller_cancelled_def example_auth_def make_chan_def)
  from c1 c2 c3 c4 c5 c6 show ?thesis by blast
qed

section \<open>Error channels\<close>

lemma subscribe_chan:
  "subscribe sub m ch jito rpc as = (ev, Ok c) \<Longrightarrow> SearcherClient_ErrChan c = ch"
  by (auto simp: subscribe_def split: sum.splits)

lemma CreateGRPCConnection_chErr:
  "CreateGRPCConnection net ch grpcAddr opts = (ev0, Inr m0) \<Longrightarrow> chErr m0 = ch"
  by (auto simp: CreateGRPCConnection_def Let_def split: if_splits sum.splits)

text \<open>
  C9, as the code has it. The error channel of an authentication service has capacity
  1, so it is buffered. The error channel that
  \<open>NewSearcherClient\<close> makes, which the health loop captures and the client exposes, has
  capacity 0: it is unbuffered.
\<close>

theorem error_channel_capacities:
  "ErrChan (NewAuthenticationService ctx keyPair) = Some (make_chan 1) \<and>
   capacity (make_chan 1) = 1 \<and> \<not> unbuffered (make_chan 1) \<and>
   (NewSearcherClient net hs sub grpcAddr jito rpc kp opts = (ev, started, res) \<longrightarrow>
      (\<forall>m. health_loop started = Some m \<longrightarrow> chErr m = Some (make_chan 0)) \<and>
      (\<forall>c. res = Some (Ok c) \<longrightarrow> SearcherClient_ErrChan c = make_chan 0)) \<and>
   capacity (make_chan 0) = 0 \<and> unbuffered (make_chan 0)"
proof (intro conjI impI allI)
  assume n: "NewSearcherClient net hs sub grpcAddr jito rpc kp opts = (ev, started, res)"
  fix m
  assume "health_loop started = Some m"
  with n show "chErr m = Some (make_chan 0)"
    by (auto simp: NewSearcherClient_def Let_def
          split: prod.splits sum.splits option.splits authenticated.splits
          dest: CreateGRPCConnection_chErr)
next
  assume n: "NewSearcherClient net hs sub grpcAddr jito rpc kp opts = (ev, started, res)"
  fix c
  assume "res = Some (Ok c)"
  with n show "SearcherClient_ErrChan c = make_chan 0"
    by (auto simp: NewSearcherClient_def Let_def
          split: prod.splits sum.splits option.splits authenticated.splits
          dest: subscribe_chan)
qed (simp_all add: NewAuthenticationService_def make_chan_def unbuffered_def)

lemma client_example:
  "NewSearcherClient example_net example_handshake example_subscribe ''https://ny.example.org''
       3 4 (Some [1, 2]) [] =
     ([Dial ''ny.example.org:443'' tls_opts, Call_GenerateAuthChallenge,
       Call_GenerateAuthTokens, Call_SubscribeBundleResults],
      \<lparr>health_loop = Some ((example_monitor 0)\<lparr>chErr := Some (make_chan 0)\<rparr>),
       refresh_loop = Some (example_auth, ''refresh'')\<rparr>,
      Some (Ok example_client))"
proof -
  have "CreateGRPCConnection example_net (Some (make_chan 0)) ''https://ny.example.org'' [] =
     ([Dial ''ny.example.org:443'' tls_opts],
      Inr ((example_monitor 0)\<lparr>chErr := Some (make_chan 0)\<rparr>))"
    by (simp add: CreateGRPCConnection_def Let_def example_net_def example_monitor_def
          tls_opts_def)
  then show ?thesis
    by (simp add: NewSearcherClient_def Let_def handshake_example subscribe_def
          example_subscribe_def example_client_def example_monitor_def)
qed

text \<open>
  C9 as amended, at the example client.
\<close>

theorem error_channel_capacities_witness:
  "chErr ((example_monitor 0)\<lparr>chErr := Some (make_chan 0)\<rparr>) = Some (make_chan 0) \<and>
   SearcherClient_ErrChan example_client = make_chan 0"
  using error_channel_capacities [of _ _ example_net example_handshake example_subscribe
      "''https://ny.example.org''" 3 4 "Some [1, 2]" "[]", THEN conjunct2, THEN conjunct2,
      THEN conjunct2, THEN conjunct1, THEN mp, OF client_example]
  by simp

text \<open>
  C9 as stated fails: the error channel of the example client is unbuffered, so its
  capacity is not between 1 and 10.
\<close>

theorem client_error_channel_unbuffered:
  "snd (snd (NewSearcherClient example_net example_handshake example_subscribe
       ''https://ny.example.org'' 3 4 (Some [1, 2]) [])) = Some (Ok example_client) \<and>
   capacity (SearcherClient_ErrChan example_client) = 0 \<and>
   \<not> (1 \<le> capacity (SearcherClient_ErrChan example_client) \<and>
      capacity (SearcherClient_ErrChan example_client) \<le> 10)"
  by (simp add: client_example) (simp add: example_client_def make_chan_def)

end
